theory Spec2Isabelle
  imports Complex_Main "HOL-Library.Monad_Syntax"
begin

section \<open>Pattern detectors: data model\<close>

text \<open>
  A shallow embedding of \<^verbatim>\<open>pattern_detectors.py\<close>. A price bar carries the
  five columns the detectors read. Bar values are finite numbers and arithmetic on them is
  exact (type \<open>real\<close>): rounding of binary floating point is not modelled. What float
  arithmetic adds to the reals on finite data, the result of a division by zero and the
  mean of an empty window, is written out (type \<open>quot\<close>). An \<^verbatim>\<open>.iloc[i]\<close> outside
  the series raises \<^verbatim>\<open>IndexError\<close>; a raise is the value \<open>None\<close>.
\<close>

record bar =
  Open :: real
  High :: real
  Low :: real
  Close :: real
  Volume :: real

text \<open>The value of a true division of two finite floats: numpy gives an infinity or
  NaN for a zero divisor, and no exception.\<close>

datatype quot = Q real | PosInf | NegInf | NaN

definition fdiv :: "real \<Rightarrow> real \<Rightarrow> quot" where
  "fdiv a b =
     (if b \<noteq> 0 then Q (a / b)
      else if 0 < a then PosInf
      else if a < 0 then NegInf
      else NaN)"

text \<open>Comparisons of a quotient with a finite number; every comparison with NaN is false.\<close>

fun qlt :: "quot \<Rightarrow> real \<Rightarrow> bool" where
  "qlt (Q x) r = (x < r)"
| "qlt PosInf r = False"
| "qlt NegInf r = True"
| "qlt NaN r = False"

fun qle :: "quot \<Rightarrow> real \<Rightarrow> bool" where
  "qle (Q x) r = (x \<le> r)"
| "qle PosInf r = False"
| "qle NegInf r = True"
| "qle NaN r = False"

fun qgt :: "quot \<Rightarrow> real \<Rightarrow> bool" where
  "qgt (Q x) r = (r < x)"
| "qgt PosInf r = True"
| "qgt NegInf r = False"
| "qgt NaN r = False"

fun qge :: "quot \<Rightarrow> real \<Rightarrow> bool" where
  "qge (Q x) r = (r \<le> x)"
| "qge PosInf r = True"
| "qge NegInf r = False"
| "qge NaN r = False"

subsection \<open>Series access\<close>

text \<open>\<^verbatim>\<open>s.iloc[i]\<close> for an integer \<open>i\<close>: negative positions count from the end,
  a position outside the series raises.\<close>

definition iloc :: "'a list \<Rightarrow> int \<Rightarrow> 'a option" where
  "iloc xs i =
     (let n = int (length xs)
      in if 0 \<le> i \<and> i < n then Some (xs ! nat i)
         else if - n \<le> i \<and> i < 0 then Some (xs ! nat (n + i))
         else None)"

text \<open>A slice bound is clipped into the series, never an error.\<close>

definition slice_bound :: "int \<Rightarrow> int \<Rightarrow> nat" where
  "slice_bound n i = nat (if i < 0 then max 0 (n + i) else min n i)"

text \<open>\<^verbatim>\<open>s.iloc[start:stop]\<close>, \<^verbatim>\<open>s.iloc[start:]\<close> and \<^verbatim>\<open>s.iloc[:stop]\<close>.\<close>

definition islice :: "'a list \<Rightarrow> int \<Rightarrow> int \<Rightarrow> 'a list" where
  "islice xs start stop =
     (let n = int (length xs); a = slice_bound n start; b = slice_bound n stop
      in take (b - a) (drop a xs))"

definition islice_from :: "'a list \<Rightarrow> int \<Rightarrow> 'a list" where
  "islice_from xs start = drop (slice_bound (int (length xs)) start) xs"

definition islice_to :: "'a list \<Rightarrow> int \<Rightarrow> 'a list" where
  "islice_to xs stop = take (slice_bound (int (length xs)) stop) xs"

text \<open>\<^verbatim>\<open>s.tail(n)\<close> for \<open>n \<ge> 0\<close>: the last \<open>n\<close> rows, the whole series when it is shorter.\<close>

definition tail :: "nat \<Rightarrow> 'a list \<Rightarrow> 'a list" where
  "tail n xs = drop (length xs - n) xs"

text \<open>Aggregates of a window. They are defined on a non-empty window only: pandas gives
  NaN on an empty one, and every use below is either behind a length guard that makes the
  window non-empty or tests for the empty window first.\<close>

fun series_max :: "real list \<Rightarrow> real" where
  "series_max (x # xs) = foldl max x xs"

fun series_min :: "real list \<Rightarrow> real" where
  "series_min (x # xs) = foldl min x xs"

fun mean :: "real list \<Rightarrow> real" where
  "mean (x # xs) = (x + sum_list xs) / (1 + real (length xs))"

text \<open>\<^verbatim>\<open>s.rolling(3, center=True).max().dropna()\<close>: one value for each position that
  has both neighbours, so two values fewer than the series and none for a series
  shorter than three.\<close>

fun rolling3_max :: "real list \<Rightarrow> real list" where
  "rolling3_max (a # b # c # xs) = max a (max b c) # rolling3_max (b # c # xs)"
| "rolling3_max xs = []"

fun rolling3_min :: "real list \<Rightarrow> real list" where
  "rolling3_min (a # b # c # xs) = min a (min b c) # rolling3_min (b # c # xs)"
| "rolling3_min xs = []"

text \<open>\<^verbatim>\<open>next((i for i in range(1, 11) if P(s.iloc[-i])), 11)\<close>: the first offset
  whose value satisfies \<open>P\<close>, the default when there is none.\<close>

fun first_offset :: "(real \<Rightarrow> bool) \<Rightarrow> real list \<Rightarrow> int list \<Rightarrow> int \<Rightarrow> int option" where
  "first_offset P xs [] d = Some d"
| "first_offset P xs (i # js) d =
     do { h \<leftarrow> iloc xs (- i);
          if P h then Some i else first_offset P xs js d }"

subsection \<open>Fact map and running score\<close>

text \<open>A value of the fact map. A formatted string keeps the number it formats:
  \<open>VPct q\<close> is \<open>q\<close> printed as a percentage, \<open>VStatus s q\<close> the volume status
  text \<open>s\<close> with the multiplier \<open>q\<close>, \<open>VDays n\<close> the text "n days".\<close>

datatype info_value =
    VBool bool
  | VStr string
  | VNum real
  | VInt int
  | VQuot quot
  | VPct quot
  | VStatus string quot
  | VDays int
  | VSeries "real list"

type_synonym pattern_info = "string \<rightharpoonup> info_value"

text \<open>The pair a detector threads through its stages: the running confidence and the
  fact map.\<close>

type_synonym score = "real \<times> pattern_info"

text \<open>The assignments \<^verbatim>\<open>info[k] = v\<close>, in order.\<close>

definition put_all :: "(string \<times> info_value) list \<Rightarrow> pattern_info \<Rightarrow> pattern_info" where
  "put_all kvs m = foldl (\<lambda>m kv. m(fst kv \<mapsto> snd kv)) m kvs"

text \<open>\<^verbatim>\<open>confidence += points\<close> followed by the assignments of that branch.\<close>

definition award :: "real \<Rightarrow> (string \<times> info_value) list \<Rightarrow> score \<Rightarrow> score" where
  "award points kvs s = (fst s + points, put_all kvs (snd s))"

text \<open>\<^verbatim>\<open>confidence *= factor\<close> followed by the assignments of that branch.\<close>

definition scale :: "real \<Rightarrow> (string \<times> info_value) list \<Rightarrow> score \<Rightarrow> score" where
  "scale factor kvs s = (fst s * factor, put_all kvs (snd s))"

text \<open>\<^verbatim>\<open>info.get(k)\<close> used as a condition. The detectors store nothing but
  \<^verbatim>\<open>True\<close> under the keys they test this way.\<close>

definition flag_set :: "pattern_info \<Rightarrow> string \<Rightarrow> bool" where
  "flag_set m k = (m k = Some (VBool True))"

subsection \<open>Configuration\<close>

text \<open>Modelled from the spec: the thresholds of \<^verbatim>\<open>config.py\<close>, which the detectors
  import and which is not among the sources. The spec names them (gain minimums,
  pullback and depth bands, resistance tolerance, age limits, volume tier multipliers and
  points, per-pattern volume bonuses, the volume-confirmation ceiling) without their
  values, so they are a parameter of every function.\<close>

record config =
  min_initial_gain :: real
  min_pullback :: real
  resistance_tolerance :: real
  min_flagpole_gain :: real
  pullback_range :: "real \<times> real"
  flag_tolerance :: real
  min_cup_depth :: real
  max_cup_depth :: real
  max_handle_depth :: real
  tight_consolidation :: real
  good_consolidation :: real
  moderate_consolidation :: real
  tight_consolidation_weekly :: real
  good_consolidation_weekly :: real
  moderate_consolidation_weekly :: real
  volume_threshold_exceptional :: real
  volume_threshold_strong :: real
  volume_threshold_good :: real
  volume_points_exceptional :: real
  volume_points_strong :: real
  volume_points_good :: real
  volume_bonus_bull_flag :: real
  volume_bonus_cup_handle :: real
  volume_bonus_flat_top :: real
  volume_bonus_inside_bar :: real
  max_confidence_without_volume :: real
  age_limit_flat_top :: int
  age_limit_bull_flag :: int

section \<open>Volume analyzer\<close>

text \<open>The tiered base score on the volume multiplier, lines 31 to 46.\<close>

definition volume_tier :: "config \<Rightarrow> quot \<Rightarrow> score \<Rightarrow> score" where
  "volume_tier cfg volume_multiplier s =
     (if qge volume_multiplier (volume_threshold_exceptional cfg) then
        award (volume_points_exceptional cfg)
          [(''exceptional_volume'', VBool True),
           (''volume_status'', VStatus ''Exceptional Volume'' volume_multiplier)] s
      else if qge volume_multiplier (volume_threshold_strong cfg) then
        award (volume_points_strong cfg)
          [(''strong_volume'', VBool True),
           (''volume_status'', VStatus ''Strong Volume'' volume_multiplier)] s
      else if qge volume_multiplier (volume_threshold_good cfg) then
        award (volume_points_good cfg)
          [(''good_volume'', VBool True),
           (''volume_status'', VStatus ''Good Volume'' volume_multiplier)] s
      else
        award 0
          [(''weak_volume'', VBool True),
           (''volume_status'', VStatus ''Weak Volume'' volume_multiplier)] s)"

text \<open>The Bull Flag branch, lines 49 to 67. The flagpole window is empty for a series
  shorter than 25 bars; its mean is then NaN and both comparisons are false. The floor
  division \<^verbatim>\<open>// 2\<close> of the half bonus is written out.\<close>

definition volume_bull_flag :: "config \<Rightarrow> bar list \<Rightarrow> pattern_info \<Rightarrow> score \<Rightarrow> score" where
  "volume_bull_flag cfg data info s =
     (if info ''flagpole_gain'' \<noteq> None then
        (let flagpole_start = min 25 (int (length data) - 10);
             flagpole_end = 15;
             flagpole_window = map Volume (islice data (- flagpole_start) (- flagpole_end));
             flag_vol = mean (map Volume (tail 15 data))
         in if flagpole_window = [] then s
            else
              (let flagpole_vol = mean flagpole_window
               in if flagpole_vol > flag_vol * 1.2 then
                    award (volume_bonus_bull_flag cfg)
                      [(''flagpole_volume_pattern'', VBool True),
                       (''flagpole_vol_ratio'', VQuot (fdiv flagpole_vol flag_vol))] s
                  else if flagpole_vol > flag_vol * 1.1 then
                    award (of_int \<lfloor>volume_bonus_bull_flag cfg / 2\<rfloor>)
                      [(''moderate_flagpole_volume'', VBool True),
                       (''flagpole_vol_ratio'', VQuot (fdiv flagpole_vol flag_vol))] s
                  else s))
      else s)"

text \<open>The Cup Handle branch, lines 69 to 89.\<close>

definition volume_cup_handle :: "config \<Rightarrow> bar list \<Rightarrow> score \<Rightarrow> score" where
  "volume_cup_handle cfg data s =
     (let handle_days = min 30 (int (length data) div 3)
      in if handle_days > 5 then
           (let cup_data = islice_to data (- handle_days);
                handle_data = tail (nat handle_days) data
            in if length cup_data > 10 then
                 (let cup_volume = mean (map Volume cup_data);
                      handle_volume = mean (map Volume handle_data)
                  in if handle_volume < cup_volume * 0.80 then
                       award (volume_bonus_cup_handle cfg)
                         [(''significant_volume_dryup'', VBool True),
                          (''handle_vol_ratio'', VQuot (fdiv handle_volume cup_volume))] s
                     else if handle_volume < cup_volume * 0.90 then
                       award (volume_bonus_cup_handle cfg * 0.75)
                         [(''moderate_volume_dryup'', VBool True),
                          (''handle_vol_ratio'', VQuot (fdiv handle_volume cup_volume))] s
                     else s)
               else s)
         else s)"

text \<open>The Flat Top Breakout branch, lines 91 to 102.\<close>

definition volume_flat_top :: "config \<Rightarrow> bar list \<Rightarrow> real \<Rightarrow> score \<Rightarrow> score" where
  "volume_flat_top cfg data current_volume s =
     (let resistance_tests = map Volume (tail 20 data);
          avg_resistance_volume = mean resistance_tests
      in if current_volume > avg_resistance_volume * 1.4 then
           award (volume_bonus_flat_top cfg)
             [(''breakout_volume_surge'', VBool True),
              (''resistance_vol_ratio'', VQuot (fdiv current_volume avg_resistance_volume))] s
         else if current_volume > avg_resistance_volume * 1.2 then
           award (volume_bonus_flat_top cfg * 0.75)
             [(''moderate_breakout_volume'', VBool True),
              (''resistance_vol_ratio'', VQuot (fdiv current_volume avg_resistance_volume))] s
         else s)"

text \<open>The Inside Bar branch, lines 104 to 116: two independent tests.\<close>

definition volume_inside_bar :: "config \<Rightarrow> quot \<Rightarrow> score \<Rightarrow> score" where
  "volume_inside_bar cfg volume_multiplier s =
     (let s1 = (if qlt volume_multiplier 0.8 then
                  award (volume_bonus_inside_bar cfg) [(''consolidation_volume'', VBool True)] s
                else if qlt volume_multiplier 1.0 then
                  award (volume_bonus_inside_bar cfg * 0.67) [(''quiet_consolidation'', VBool True)] s
                else s)
      in if qge volume_multiplier 1.5 then
           award (volume_bonus_inside_bar cfg) [(''breakout_volume_expansion'', VBool True)] s1
         else s1)"

text \<open>The volume trend, lines 118 to 125.\<close>

definition volume_trend_bonus :: "bar list \<Rightarrow> score \<Rightarrow> score" where
  "volume_trend_bonus data s =
     (let volume_trend = fdiv (mean (map Volume (tail 5 data))) (mean (map Volume (tail 20 data)))
      in if qgt volume_trend 1.1 then award 5 [(''increasing_volume_trend'', VBool True)] s
         else if qlt volume_trend 0.9 then award 5 [(''decreasing_volume_trend'', VBool True)] s
         else s)"

text \<open>\<^verbatim>\<open>analyze_volume_pattern\<close>: the pair is the volume score and the volume facts.\<close>

definition analyze_volume_pattern ::
  "config \<Rightarrow> bar list \<Rightarrow> string \<Rightarrow> pattern_info \<Rightarrow> score option" where
  "analyze_volume_pattern cfg data pattern_type info =
     (if length data < 20 then Some (0, Map.empty)
      else do {
        let avg_volume_20 = mean (map Volume (tail 20 data));
        current_volume \<leftarrow> iloc (map Volume data) (- 1);
        let recent_volume_5 = mean (map Volume (tail 5 data));
        let volume_multiplier = fdiv current_volume avg_volume_20;
        let recent_multiplier = fdiv recent_volume_5 avg_volume_20;
        let s0 = award 0
                   [(''avg_volume_20'', VNum avg_volume_20),
                    (''current_volume'', VNum current_volume),
                    (''volume_multiplier'', VQuot volume_multiplier),
                    (''recent_multiplier'', VQuot recent_multiplier)] (0, Map.empty);
        let s1 = volume_tier cfg volume_multiplier s0;
        let s2 = (if pattern_type = ''Bull Flag'' then volume_bull_flag cfg data info s1
                  else if pattern_type = ''Cup Handle'' then volume_cup_handle cfg data s1
                  else if pattern_type = ''Flat Top Breakout'' then
                    volume_flat_top cfg data current_volume s1
                  else if pattern_type = ''Inside Bar'' then
                    volume_inside_bar cfg volume_multiplier s1
                  else s1);
        Some (volume_trend_bonus data s2)
      })"

text \<open>The tail every detector shares: add the volume score, merge the volume facts
  (\<^verbatim>\<open>pattern_info.update(volume_info)\<close>), then the volume confirmation cap.\<close>

definition add_volume :: "score \<Rightarrow> score \<Rightarrow> score" where
  "add_volume v s = (fst s + fst v, snd s ++ snd v)"

definition volume_cap :: "config \<Rightarrow> pattern_info \<Rightarrow> score \<Rightarrow> score" where
  "volume_cap cfg volume_info s =
     (if \<not> (flag_set volume_info ''good_volume'' \<or> flag_set volume_info ''strong_volume''
             \<or> flag_set volume_info ''exceptional_volume'')
      then (min (fst s) (max_confidence_without_volume cfg),
            (snd s)(''confidence_capped'' \<mapsto> VStr ''No volume confirmation''))
      else s)"

section \<open>Inside Bar detector\<close>

text \<open>The state of the backward scan: \<^verbatim>\<open>mother_bar_idx\<close> (\<open>None\<close> as in the source),
  \<^verbatim>\<open>inside_bars_count\<close> and \<^verbatim>\<open>inside_bar_indices\<close>.\<close>

type_synonym scan_state = "int option \<times> nat \<times> int list"

text \<open>The test of one offset, lines 158 to 166: the bar is strictly inside the previous
  one, the previous bar is green and the bar itself is red.\<close>

definition qualifies :: "bar \<Rightarrow> bar \<Rightarrow> bool" where
  "qualifies current_bar previous_bar =
     (let is_inside = (High current_bar \<le> High previous_bar \<and>
                       Low current_bar \<ge> Low previous_bar \<and>
                       High current_bar < High previous_bar \<and>
                       Low current_bar > Low previous_bar);
          mother_is_green = (Close previous_bar > Open previous_bar);
          inside_is_red = (Close current_bar < Open current_bar)
      in is_inside \<and> mother_is_green \<and> inside_is_red)"

text \<open>The loop of lines 153 to 184 over the offsets still to visit. A \<^verbatim>\<open>break\<close>
  returns the state as it is; an \<^verbatim>\<open>IndexError\<close> of a read is caught and
  breaks too.\<close>

fun inside_bar_scan :: "bar list \<Rightarrow> int list \<Rightarrow> scan_state \<Rightarrow> scan_state" where
  "inside_bar_scan data [] st = st"
| "inside_bar_scan data (i # rest) (mother_bar_idx, inside_bars_count, inside_bar_indices) =
     (case iloc data i of
        None \<Rightarrow> (mother_bar_idx, inside_bars_count, inside_bar_indices)
      | Some current_bar \<Rightarrow>
          (case iloc data (i - 1) of
             None \<Rightarrow> (mother_bar_idx, inside_bars_count, inside_bar_indices)
           | Some previous_bar \<Rightarrow>
               if qualifies current_bar previous_bar then
                 if inside_bars_count = 0 then
                   inside_bar_scan data rest (Some (i - 1), 1, inside_bar_indices @ [i])
                 else if inside_bars_count = 1 then
                   (case iloc inside_bar_indices 0 of
                      None \<Rightarrow> (mother_bar_idx, inside_bars_count, inside_bar_indices)
                    | Some first_idx \<Rightarrow>
                        if i = first_idx - 1 then (mother_bar_idx, 2, inside_bar_indices @ [i])
                        else (mother_bar_idx, inside_bars_count, inside_bar_indices))
                 else (mother_bar_idx, inside_bars_count, inside_bar_indices)
               else (mother_bar_idx, inside_bars_count, inside_bar_indices)))"

text \<open>The offsets of \<^verbatim>\<open>max_lookback_range\<close> and the aging threshold, lines 138 to 145.\<close>

definition max_lookback_range :: "string \<Rightarrow> int list" where
  "max_lookback_range timeframe =
     (if timeframe = ''1wk'' then [- 1, - 2, - 3, - 4, - 5, - 6] else [- 1, - 2, - 3, - 4])"

definition aging_threshold :: "string \<Rightarrow> int" where
  "aging_threshold timeframe = (if timeframe = ''1wk'' then - 8 else - 6)"

definition timeframe_info :: "string \<Rightarrow> pattern_info" where
  "timeframe_info timeframe =
     (if timeframe = ''1wk'' then [''timeframe'' \<mapsto> VStr ''Weekly'']
      else [''timeframe'' \<mapsto> VStr ''Daily''])"

text \<open>The whole scan of one call, from the initial state of lines 148 to 150.\<close>

definition scan_result :: "bar list \<Rightarrow> string \<Rightarrow> scan_state" where
  "scan_result data timeframe = inside_bar_scan data (max_lookback_range timeframe) (None, 0, [])"

text \<open>Formation, colour and count, lines 200 to 223.\<close>

definition inside_bar_formation :: "string \<Rightarrow> bar \<Rightarrow> bar \<Rightarrow> nat \<Rightarrow> score \<Rightarrow> score" where
  "inside_bar_formation timeframe mother_bar latest_inside_bar inside_bars_count s =
     (let base_confidence = (if timeframe = ''1wk'' then 35 else 30);
          s1 = award base_confidence
                 [(''mother_bar_high'', VNum (High mother_bar)),
                  (''mother_bar_low'', VNum (Low mother_bar)),
                  (''inside_bar_high'', VNum (High latest_inside_bar)),
                  (''inside_bar_low'', VNum (Low latest_inside_bar)),
                  (''inside_bars_count'', VInt (int inside_bars_count)),
                  (''color_validated'', VBool True),
                  (''mother_bar_color'', VStr ''Green''),
                  (''inside_bar_color'', VStr ''Red'')] s;
          s2 = award 15 [(''proper_color_combo'', VBool True)] s1
      in if inside_bars_count = 1 then award 15 [(''single_inside_bar'', VBool True)] s2
         else award 10 [(''double_inside_bar'', VBool True)] s2)"

text \<open>Relative size and position inside the mother bar, lines 225 to 261.\<close>

definition inside_bar_geometry :: "config \<Rightarrow> string \<Rightarrow> bar \<Rightarrow> bar \<Rightarrow> score \<Rightarrow> score" where
  "inside_bar_geometry cfg timeframe mother_bar latest_inside_bar s =
     (let mother_bar_range = High mother_bar - Low mother_bar;
          inside_bar_range = High latest_inside_bar - Low latest_inside_bar;
          s1 = (if mother_bar_range > 0 then
                  (let size_ratio = fdiv inside_bar_range mother_bar_range;
                       s0 = award 0 [(''size_ratio'', VPct size_ratio)] s;
                       tight_threshold = (if timeframe = ''1wk'' then tight_consolidation_weekly cfg
                                          else tight_consolidation cfg);
                       good_threshold = (if timeframe = ''1wk'' then good_consolidation_weekly cfg
                                         else good_consolidation cfg);
                       moderate_threshold = (if timeframe = ''1wk'' then moderate_consolidation_weekly cfg
                                             else moderate_consolidation cfg)
                   in if qlt size_ratio tight_threshold then
                        award 20 [(''tight_consolidation'', VBool True)] s0
                      else if qlt size_ratio good_threshold then
                        award 15 [(''good_consolidation'', VBool True)] s0
                      else if qlt size_ratio moderate_threshold then
                        award 10 [(''moderate_consolidation'', VBool True)] s0
                      else award 5 [] s0)
                else s);
          mother_bar_midpoint = (High mother_bar + Low mother_bar) / 2;
          inside_bar_midpoint = (High latest_inside_bar + Low latest_inside_bar) / 2;
          distance_from_middle = fdiv \<bar>inside_bar_midpoint - mother_bar_midpoint\<bar> mother_bar_range
      in if qlt distance_from_middle 0.25 then award 10 [(''centered_inside_bar'', VBool True)] s1
         else if qlt distance_from_middle 0.35 then award 5 [(''well_positioned'', VBool True)] s1
         else s1)"

text \<open>Technical confirmation and price position, lines 263 to 276, on the values read
  from the indicator series and the close column.\<close>

definition inside_bar_confirmation ::
  "real \<Rightarrow> real \<Rightarrow> real \<Rightarrow> real \<Rightarrow> real \<Rightarrow> bar \<Rightarrow> score \<Rightarrow> score" where
  "inside_bar_confirmation macd_last signal_last hist_last hist_third current_price latest_inside_bar s =
     (let s1 = (if macd_last > signal_last then award 15 [(''macd_bullish'', VBool True)] s else s);
          s2 = (if hist_last > hist_third then award 10 [(''momentum_improving'', VBool True)] s1 else s1)
      in if current_price \<ge> Low latest_inside_bar * 0.98 then
           award 10 [(''price_in_range'', VBool True)] s2
         else s2)"

text \<open>The age check, lines 288 to 293.\<close>

definition inside_bar_aging :: "string \<Rightarrow> int \<Rightarrow> score \<Rightarrow> score" where
  "inside_bar_aging timeframe mother_bar_idx s =
     (if mother_bar_idx \<le> aging_threshold timeframe then
        (let aging_penalty = (if timeframe = ''1wk'' then 0.7 else 0.8)
         in scale aging_penalty
              [(''pattern_aging'', VBool True), (''age_periods'', VInt \<bar>mother_bar_idx\<bar>)] s)
      else s)"

text \<open>\<^verbatim>\<open>detect_inside_bar\<close>. The market context is passed and never read. Reading the
  mother bar at an index that is still \<^verbatim>\<open>None\<close> raises, as reading a bar outside the
  series does.\<close>

definition detect_inside_bar ::
  "config \<Rightarrow> bar list \<Rightarrow> real list \<Rightarrow> real list \<Rightarrow> real list \<Rightarrow> 'c \<Rightarrow> string \<Rightarrow> score option" where
  "detect_inside_bar cfg data macd_line signal_line histogram market_context timeframe =
     (if length data < 5 then Some (0, Map.empty)
      else
        (case scan_result data timeframe of
           (mother_bar_idx, inside_bars_count, inside_bar_indices) \<Rightarrow>
             if inside_bars_count = 0 then Some (0, timeframe_info timeframe)
             else do {
               mother_idx \<leftarrow> mother_bar_idx;
               mother_bar \<leftarrow> iloc data mother_idx;
               first_idx \<leftarrow> iloc inside_bar_indices 0;
               latest_inside_bar \<leftarrow> iloc data first_idx;
               let mother_is_green = (Close mother_bar > Open mother_bar);
               let inside_is_red = (Close latest_inside_bar < Open latest_inside_bar);
               if \<not> (mother_is_green \<and> inside_is_red) then Some (0, timeframe_info timeframe)
               else do {
                 let s1 = inside_bar_formation timeframe mother_bar latest_inside_bar
                            inside_bars_count (0, timeframe_info timeframe);
                 let s2 = inside_bar_geometry cfg timeframe mother_bar latest_inside_bar s1;
                 macd_last \<leftarrow> iloc macd_line (- 1);
                 signal_last \<leftarrow> iloc signal_line (- 1);
                 hist_last \<leftarrow> iloc histogram (- 1);
                 hist_third \<leftarrow> iloc histogram (- 3);
                 current_price \<leftarrow> iloc (map Close data) (- 1);
                 let s3 = inside_bar_confirmation macd_last signal_last hist_last hist_third
                            current_price latest_inside_bar s2;
                 v \<leftarrow> analyze_volume_pattern cfg data ''Inside Bar'' (snd s3);
                 let s4 = volume_cap cfg (snd v) (add_volume v s3);
                 Some (inside_bar_aging timeframe mother_idx s4)
               }
             }))"

section \<open>Flat Top Breakout detector\<close>

text \<open>The quantities \<^verbatim>\<open>detect_flat_top\<close> computes from the series, under the names
  the source gives them.\<close>

definition ft_ascent_start :: "bar list \<Rightarrow> int" where
  "ft_ascent_start data = min 45 (int (length data) - 15)"

definition ft_peak_price :: "bar list \<Rightarrow> real" where
  "ft_peak_price data = series_max (map High (islice data (- ft_ascent_start data) (- 25)))"

definition ft_initial_gain :: "bar list \<Rightarrow> real \<Rightarrow> quot" where
  "ft_initial_gain data start_price = fdiv (ft_peak_price data - start_price) start_price"

definition ft_descent_data :: "bar list \<Rightarrow> bar list" where
  "ft_descent_data data = islice data (- 25) (- 10)"

definition ft_descent_low :: "bar list \<Rightarrow> real" where
  "ft_descent_low data = series_min (map Low (ft_descent_data data))"

definition ft_pullback :: "bar list \<Rightarrow> quot" where
  "ft_pullback data = fdiv (ft_peak_price data - ft_descent_low data) (ft_peak_price data)"

definition ft_days_old :: "config \<Rightarrow> bar list \<Rightarrow> int option" where
  "ft_days_old cfg data =
     first_offset (\<lambda>h. h \<ge> ft_peak_price data * resistance_tolerance cfg) (map High data)
       [1, 2, 3, 4, 5, 6, 7, 8, 9, 10] 11"

text \<open>The score after the ascent, line 317 and 318.\<close>

definition ft_ascent_score :: "bar list \<Rightarrow> real \<Rightarrow> score" where
  "ft_ascent_score data start_price =
     award 25 [(''initial_ascension'', VPct (ft_initial_gain data start_price))] (0, Map.empty)"

text \<open>Descending highs, higher lows and resistance touches, lines 327 to 346.\<close>

definition ft_structure :: "config \<Rightarrow> bar list \<Rightarrow> score \<Rightarrow> score" where
  "ft_structure cfg data s =
     (let descent_highs = rolling3_max (map High (ft_descent_data data));
          s1 = (if length descent_highs \<ge> 2 then
                  (if last descent_highs < hd descent_highs * 0.97 then
                     award 20 [(''descending_highs'', VBool True)] s
                   else s)
                else s);
          current_lows = rolling3_min (map Low (tail 15 data));
          s2 = (if length current_lows \<ge> 3 then
                  (if last current_lows > hd current_lows * 1.01 then
                     award 25 [(''higher_lows'', VBool True)] s1
                   else s1)
                else s1);
          resistance_level = ft_peak_price data;
          touches = length (filter (\<lambda>h. h \<ge> resistance_level * resistance_tolerance cfg)
                              (map High (tail 20 data)))
      in if touches \<ge> 2 then
           award 15 [(''resistance_level'', VNum resistance_level),
                     (''resistance_touches'', VInt (int touches))] s2
         else s2)"

text \<open>\<^verbatim>\<open>detect_flat_top\<close>. The indicator series are read only after the age and
  invalidation checks.\<close>

definition detect_flat_top ::
  "config \<Rightarrow> bar list \<Rightarrow> real list \<Rightarrow> real list \<Rightarrow> real list \<Rightarrow> 'c \<Rightarrow> score option" where
  "detect_flat_top cfg data macd_line signal_line histogram market_context =
     (if length data < 50 then Some (0, Map.empty)
      else do {
        start_price \<leftarrow> iloc (map Close data) (- ft_ascent_start data);
        if qlt (ft_initial_gain data start_price) (min_initial_gain cfg) then Some (0, Map.empty)
        else do {
          let s1 = ft_ascent_score data start_price;
          if qlt (ft_pullback data) (min_pullback cfg) then Some s1
          else do {
            let s2 = ft_structure cfg data s1;
            current_price \<leftarrow> iloc (map Close data) (- 1);
            days_old \<leftarrow> ft_days_old cfg data;
            if days_old > age_limit_flat_top cfg then
              Some (fst s2 * 0.5,
                    (snd s2)(''pattern_stale'' \<mapsto> VBool True, ''days_old'' \<mapsto> VInt days_old))
            else if current_price < ft_descent_low data * 0.95 then
              Some (0, [''pattern_broken'' \<mapsto> VBool True, ''break_reason'' \<mapsto> VStr ''Below support''])
            else do {
              macd_last \<leftarrow> iloc macd_line (- 1);
              signal_last \<leftarrow> iloc signal_line (- 1);
              let s3 = (if macd_last > signal_last then award 10 [(''macd_bullish'', VBool True)] s2
                        else s2);
              v \<leftarrow> analyze_volume_pattern cfg data ''Flat Top Breakout'' (snd s3);
              Some (volume_cap cfg (snd v) (add_volume v s3))
            }
          }
        }
      })"

section \<open>Bull Flag detector\<close>

definition bf_flagpole_start :: "bar list \<Rightarrow> int" where
  "bf_flagpole_start data = min 25 (int (length data) - 10)"

definition bf_peak_price :: "bar list \<Rightarrow> real" where
  "bf_peak_price data = series_max (map High (islice data (- bf_flagpole_start data) (- 15)))"

definition bf_flagpole_gain :: "bar list \<Rightarrow> real \<Rightarrow> quot" where
  "bf_flagpole_gain data start_price = fdiv (bf_peak_price data - start_price) start_price"

definition bf_flag_low :: "bar list \<Rightarrow> real" where
  "bf_flag_low data = series_min (map Low (tail 15 data))"

definition bf_flag_high :: "bar list \<Rightarrow> real" where
  "bf_flag_high data = series_max (map High (tail 15 data))"

definition bf_days_old :: "bar list \<Rightarrow> int option" where
  "bf_days_old data =
     first_offset (\<lambda>h. h = bf_flag_high data) (map High data)
       [1, 2, 3, 4, 5, 6, 7, 8, 9, 10] 11"

text \<open>The score after the flagpole and the pullback test, lines 395 to 407.\<close>

definition bf_pullback_score :: "config \<Rightarrow> bar list \<Rightarrow> real \<Rightarrow> real \<Rightarrow> real \<Rightarrow> score" where
  "bf_pullback_score cfg data start_price flag_start current_price =
     (let s1 = award 25 [(''flagpole_gain'', VPct (bf_flagpole_gain data start_price))] (0, Map.empty);
          pullback = fdiv (current_price - flag_start) flag_start
      in if qge pullback (fst (pullback_range cfg)) \<and> qle pullback (snd (pullback_range cfg)) then
           award 20 [(''flag_pullback'', VPct pullback), (''healthy_pullback'', VBool True)] s1
         else s1)"

text \<open>Technical confirmation, lines 426 to 433.\<close>

definition bf_confirmation :: "real \<Rightarrow> real \<Rightarrow> real \<Rightarrow> real \<Rightarrow> score \<Rightarrow> score" where
  "bf_confirmation macd_last signal_last hist_last hist_third s =
     (let s1 = (if macd_last > signal_last then award 15 [(''macd_bullish'', VBool True)] s else s)
      in if hist_last > hist_third then award 10 [(''momentum_recovering'', VBool True)] s1
         else s1)"

text \<open>\<^verbatim>\<open>detect_bull_flag\<close>.\<close>

definition detect_bull_flag ::
  "config \<Rightarrow> bar list \<Rightarrow> real list \<Rightarrow> real list \<Rightarrow> real list \<Rightarrow> 'c \<Rightarrow> score option" where
  "detect_bull_flag cfg data macd_line signal_line histogram market_context =
     (if length data < 30 then Some (0, Map.empty)
      else do {
        start_price \<leftarrow> iloc (map Close data) (- bf_flagpole_start data);
        if qlt (bf_flagpole_gain data start_price) (min_flagpole_gain cfg) then Some (0, Map.empty)
        else do {
          flag_start \<leftarrow> iloc (map Close data) (- 15);
          current_price \<leftarrow> iloc (map Close data) (- 1);
          let s2 = bf_pullback_score cfg data start_price flag_start current_price;
          if current_price < bf_flag_low data * flag_tolerance cfg then
            Some (0, [''pattern_broken'' \<mapsto> VBool True, ''break_reason'' \<mapsto> VStr ''Below flag support''])
          else if current_price < start_price then
            Some (0, [''pattern_broken'' \<mapsto> VBool True, ''break_reason'' \<mapsto> VStr ''Below flagpole start''])
          else do {
            days_old \<leftarrow> bf_days_old data;
            if days_old > age_limit_bull_flag cfg then
              Some (fst s2 * 0.5,
                    (snd s2)(''pattern_stale'' \<mapsto> VBool True, ''days_old'' \<mapsto> VInt days_old))
            else do {
              let s3 = award 0 [(''days_since_high'', VInt days_old)] s2;
              macd_last \<leftarrow> iloc macd_line (- 1);
              signal_last \<leftarrow> iloc signal_line (- 1);
              hist_last \<leftarrow> iloc histogram (- 1);
              hist_third \<leftarrow> iloc histogram (- 3);
              let s4 = bf_confirmation macd_last signal_last hist_last hist_third s3;
              v \<leftarrow> analyze_volume_pattern cfg data ''Bull Flag'' (snd s4);
              let s5 = add_volume v s4;
              let s6 = (if current_price \<ge> bf_flag_high data * 0.95 then
                          award 10 [(''near_breakout'', VBool True)] s5
                        else s5);
              Some (volume_cap cfg (snd v) s6)
            }
          }
        }
      })"

section \<open>Cup Handle detector\<close>

definition cup_max_lookback :: "bar list \<Rightarrow> int" where
  "cup_max_lookback data = min 100 (int (length data) - 3)"

definition cup_handle_days :: "bar list \<Rightarrow> int" where
  "cup_handle_days data = min 30 (cup_max_lookback data div 3)"

definition cup_data :: "bar list \<Rightarrow> bar list" where
  "cup_data data =
     (if cup_handle_days data > 0 then islice data (- cup_max_lookback data) (- cup_handle_days data)
      else islice_from data (- cup_max_lookback data))"

definition handle_data :: "bar list \<Rightarrow> bar list" where
  "handle_data data =
     (if cup_handle_days data > 0 then tail (nat (cup_handle_days data)) data else tail 5 data)"

text \<open>Handle depth and handle length, lines 485 to 516.\<close>

definition cup_handle_analysis :: "config \<Rightarrow> bar list \<Rightarrow> real \<Rightarrow> score \<Rightarrow> score" where
  "cup_handle_analysis cfg data cup_right s =
     (let handle_days = cup_handle_days data
      in if handle_days > 0 then
           (let handle_low = series_min (map Low (handle_data data));
                handle_depth = fdiv (cup_right - handle_low) cup_right;
                s1 = (if qgt handle_depth (max_handle_depth cfg) then
                        award 10 [(''deep_handle'', VPct handle_depth)] s
                      else if qle handle_depth 0.08 then
                        award 20 [(''perfect_handle'', VPct handle_depth)] s
                      else if qle handle_depth 0.15 then
                        award 15 [(''good_handle'', VPct handle_depth)] s
                      else award 10 [(''acceptable_handle'', VPct handle_depth)] s)
            in if handle_days > 25 then scale 0.8 [(''long_handle'', VDays handle_days)] s1
               else if handle_days \<le> 10 then award 10 [(''short_handle'', VDays handle_days)] s1
               else if handle_days \<le> 20 then award 5 [(''medium_handle'', VDays handle_days)] s1
               else s1)
         else award 10 [(''forming_handle'', VStr ''Handle forming'')] s)"

text \<open>Position of the current price, lines 518 to 532.\<close>

definition cup_position :: "bar list \<Rightarrow> real \<Rightarrow> real \<Rightarrow> score \<Rightarrow> score" where
  "cup_position data current_price breakout_level s =
     (let s1 = (if current_price < breakout_level * 0.70 then
                  scale 0.7 [(''far_from_rim'', VBool True)] s
                else award 5 [] s)
      in if cup_handle_days data > 0 then
           (let handle_low = series_min (map Low (handle_data data))
            in if current_price < handle_low * 0.90 then
                 scale 0.8 [(''below_handle'', VBool True)] s1
               else s1)
         else s1)"

text \<open>Where a call stands after line 542: it has returned the empty result at one of the
  rejections, or it holds the running score (with the volume score added and the volume
  facts merged) together with the volume facts.\<close>

datatype cup_stage = Rejected | Running score pattern_info

definition cup_handle_running ::
  "config \<Rightarrow> bar list \<Rightarrow> real list \<Rightarrow> real list \<Rightarrow> cup_stage option" where
  "cup_handle_running cfg data macd_line signal_line =
     (if length data < 30 then Some Rejected
      else if length (cup_data data) < 15 then Some Rejected
      else do {
        cup_start \<leftarrow> iloc (map Close (cup_data data)) 0;
        let cup_bottom = series_min (map Low (cup_data data));
        cup_right \<leftarrow> iloc (map Close (cup_data data)) (- 1);
        let cup_depth = fdiv (max cup_start cup_right - cup_bottom) (max cup_start cup_right);
        if qlt cup_depth (min_cup_depth cfg) \<or> qgt cup_depth (max_cup_depth cfg) then Some Rejected
        else if cup_right < cup_start * 0.75 then Some Rejected
        else do {
          let s1 = award 25 [(''cup_depth'', VPct cup_depth)] (0, Map.empty);
          current_price \<leftarrow> iloc (map Close data) (- 1);
          let s2 = cup_handle_analysis cfg data cup_right s1;
          let breakout_level = max cup_start cup_right;
          let s3 = cup_position data current_price breakout_level s2;
          macd_last \<leftarrow> iloc macd_line (- 1);
          signal_last \<leftarrow> iloc signal_line (- 1);
          let s4 = (if macd_last > signal_last then award 10 [(''macd_bullish'', VBool True)] s3
                    else s3);
          v \<leftarrow> analyze_volume_pattern cfg data ''Cup Handle'' (snd s4);
          Some (Running (add_volume v s4) (snd v))
        }
      })"

text \<open>\<^verbatim>\<open>detect_cup_handle\<close>: the early exit below 35 of lines 544 and 545 comes before
  the volume confirmation cap.\<close>

definition detect_cup_handle ::
  "config \<Rightarrow> bar list \<Rightarrow> real list \<Rightarrow> real list \<Rightarrow> real list \<Rightarrow> 'c \<Rightarrow> score option" where
  "detect_cup_handle cfg data macd_line signal_line histogram market_context =
     do {
       stage \<leftarrow> cup_handle_running cfg data macd_line signal_line;
       (case stage of
          Rejected \<Rightarrow> Some (0, Map.empty)
        | Running s volume_info \<Rightarrow>
            if fst s < 35 then Some s else Some (volume_cap cfg volume_info s))
     }"

section \<open>Indicator engine and dispatcher\<close>

text \<open>\<^verbatim>\<open>s.ewm(span=n).mean()\<close> with the pandas defaults: each value is the weighted
  mean of the samples so far, the weight of a sample falling by \<open>1 - \<alpha>\<close> per step,
  \<open>\<alpha> = 2 / (n + 1)\<close>. The
  running weight sum is at least 1, so the division is an ordinary one.\<close>

fun ewm_from :: "real \<Rightarrow> real \<Rightarrow> real \<Rightarrow> real list \<Rightarrow> real list" where
  "ewm_from \<alpha> num den [] = []"
| "ewm_from \<alpha> num den (x # xs) =
     (let num' = x + (1 - \<alpha>) * num; den' = 1 + (1 - \<alpha>) * den
      in (num' / den') # ewm_from \<alpha> num' den' xs)"

definition ewm_mean :: "real \<Rightarrow> real list \<Rightarrow> real list" where
  "ewm_mean n xs = ewm_from (2 / (n + 1)) 0 0 xs"

definition series_sub :: "real list \<Rightarrow> real list \<Rightarrow> real list" where
  "series_sub xs ys = map2 (\<lambda>x y. x - y) xs ys"

text \<open>The three indicator series of lines 559 to 564.\<close>

definition macd_components :: "bar list \<Rightarrow> real list \<times> real list \<times> real list" where
  "macd_components data =
     (let ema_fast = ewm_mean 12 (map Close data);
          ema_slow = ewm_mean 26 (map Close data);
          macd_line = series_sub ema_fast ema_slow;
          signal_line = ewm_mean 9 macd_line;
          histogram = series_sub macd_line signal_line
      in (macd_line, signal_line, histogram))"

text \<open>The routing of lines 566 to 584: the detector's result, rescaled and clamped from
  above. A pattern name that no branch matches leaves the initial \<open>(0, {})\<close>.\<close>

definition route ::
  "config \<Rightarrow> bar list \<Rightarrow> string \<Rightarrow> 'c \<Rightarrow> string \<Rightarrow> real list \<Rightarrow> real list \<Rightarrow> real list \<Rightarrow> score option" where
  "route cfg data pattern_type market_context timeframe macd_line signal_line histogram =
     (if pattern_type = ''Flat Top Breakout'' then
        do { r \<leftarrow> detect_flat_top cfg data macd_line signal_line histogram market_context;
             Some (min (fst r) 100, snd r) }
      else if pattern_type = ''Bull Flag'' then
        do { r \<leftarrow> detect_bull_flag cfg data macd_line signal_line histogram market_context;
             Some (min (fst r * 1.05) 100, snd r) }
      else if pattern_type = ''Cup Handle'' then
        do { r \<leftarrow> detect_cup_handle cfg data macd_line signal_line histogram market_context;
             Some (min (fst r * 1.1) 100, snd r) }
      else if pattern_type = ''Inside Bar'' then
        do { r \<leftarrow> detect_inside_bar cfg data macd_line signal_line histogram market_context timeframe;
             Some (min (fst r) 100, snd r) }
      else Some (0, Map.empty))"

text \<open>\<^verbatim>\<open>detect_pattern\<close>: the detected flag, the confidence and the fact map.\<close>

definition detect_pattern ::
  "config \<Rightarrow> bar list \<Rightarrow> string \<Rightarrow> 'c \<Rightarrow> string \<Rightarrow> (bool \<times> real \<times> pattern_info) option" where
  "detect_pattern cfg data pattern_type market_context timeframe =
     (if length data < 10 then Some (False, 0, Map.empty)
      else
        (case macd_components data of
           (macd_line, signal_line, histogram) \<Rightarrow>
             do {
               r \<leftarrow> route cfg data pattern_type market_context timeframe
                      macd_line signal_line histogram;
               let confidence = fst r;
               let info = (snd r)(''macd_line'' \<mapsto> VSeries macd_line,
                                  ''signal_line'' \<mapsto> VSeries signal_line,
                                  ''histogram'' \<mapsto> VSeries histogram);
               Some (confidence \<ge> 55, confidence, info)
             }))"

text \<open>Whether a fact map carries the three indicator series.\<close>

definition has_indicator_triple :: "pattern_info \<Rightarrow> bool" where
  "has_indicator_triple info =
     (info ''macd_line'' \<noteq> None \<and> info ''signal_line'' \<noteq> None \<and> info ''histogram'' \<noteq> None)"

text \<open>The condition on the configuration under which no detector lowers a score below
  zero: the volume points, the volume bonuses and the ceiling without volume confirmation
  are not negative.\<close>

definition points_nonneg :: "config \<Rightarrow> bool" where
  "points_nonneg cfg =
     (0 \<le> volume_points_exceptional cfg \<and> 0 \<le> volume_points_strong cfg \<and>
      0 \<le> volume_points_good cfg \<and> 0 \<le> volume_bonus_bull_flag cfg \<and>
      0 \<le> volume_bonus_cup_handle cfg \<and> 0 \<le> volume_bonus_flat_top cfg \<and>
      0 \<le> volume_bonus_inside_bar cfg \<and> 0 \<le> max_confidence_without_volume cfg)"

text \<open>The keys the volume analyzer writes.\<close>

definition volume_fact_keys :: "string set" where
  "volume_fact_keys =
     {''avg_volume_20'', ''current_volume'', ''volume_multiplier'', ''recent_multiplier'',
      ''exceptional_volume'', ''strong_volume'', ''good_volume'', ''weak_volume'',
      ''volume_status'', ''flagpole_volume_pattern'', ''moderate_flagpole_volume'',
      ''flagpole_vol_ratio'', ''significant_volume_dryup'', ''moderate_volume_dryup'',
      ''handle_vol_ratio'', ''breakout_volume_surge'', ''moderate_breakout_volume'',
      ''resistance_vol_ratio'', ''consolidation_volume'', ''quiet_consolidation'',
      ''breakout_volume_expansion'', ''increasing_volume_trend'', ''decreasing_volume_trend''}"

section \<open>Sample inputs\<close>

text \<open>A configuration and series on which the detectors are evaluated below. The values
  of the configuration are chosen for the examples; they are not read from
  \<^verbatim>\<open>config.py\<close>.\<close>

definition sample_config :: config where
  "sample_config =
     \<lparr> min_initial_gain = 0.1, min_pullback = 0.03, resistance_tolerance = 0.98,
       min_flagpole_gain = 0.08, pullback_range = (- 0.15, 0.05), flag_tolerance = 0.95,
       min_cup_depth = 0.08, max_cup_depth = 0.6, max_handle_depth = 0.25,
       tight_consolidation = 0.3, good_consolidation = 0.5, moderate_consolidation = 0.7,
       tight_consolidation_weekly = 0.35, good_consolidation_weekly = 0.55,
       moderate_consolidation_weekly = 0.75,
       volume_threshold_exceptional = 2, volume_threshold_strong = 1.5,
       volume_threshold_good = 1.3,
       volume_points_exceptional = 25, volume_points_strong = 20, volume_points_good = 15,
       volume_bonus_bull_flag = 15, volume_bonus_cup_handle = 20, volume_bonus_flat_top = 20,
       volume_bonus_inside_bar = 10,
       max_confidence_without_volume = 70, age_limit_flat_top = 8, age_limit_bull_flag = 10 \<rparr>"

text \<open>A bar from open, high, low, close and volume.\<close>

definition ohlcv :: "real \<Rightarrow> real \<Rightarrow> real \<Rightarrow> real \<Rightarrow> real \<Rightarrow> bar" where
  "ohlcv op hi lo cl vol = \<lparr> Open = op, High = hi, Low = lo, Close = cl, Volume = vol \<rparr>"

text \<open>Four flat bars: shorter than the minimum of every detector and of the dispatcher.\<close>

definition short_series :: "bar list" where
  "short_series = replicate 4 (ohlcv 100 101 99 100 1000)"

text \<open>Ten flat bars: the shortest series the dispatcher passes on.\<close>

definition ten_bars :: "bar list" where
  "ten_bars = replicate 10 (ohlcv 100 101 99 100 1000)"

text \<open>Fifty bars for the Flat Top detector: a flat base, an ascent from 100 to a peak of
  120, a descent window with its low at 110, and ten last bars around 100, far below the
  peak and below the descent low.\<close>

definition flat_top_stale_series :: "bar list" where
  "flat_top_stale_series =
     replicate 15 (ohlcv 100 100 100 100 1000) @ [ohlcv 100 101 99 100 1000] @
     replicate 9 (ohlcv 110 120 105 115 1000) @ replicate 15 (ohlcv 112 115 110 112 1000) @
     replicate 10 (ohlcv 100 101 99 100 1000)"

text \<open>The same ascent followed by a descent window that stays at 119, within one percent
  of the peak.\<close>

definition flat_top_shallow_series :: "bar list" where
  "flat_top_shallow_series =
     replicate 15 (ohlcv 100 100 100 100 1000) @ [ohlcv 100 101 99 100 1000] @
     replicate 9 (ohlcv 110 120 105 115 1000) @ replicate 15 (ohlcv 119 120 119 119 1000) @
     replicate 10 (ohlcv 119 120 119 119 1000)"

text \<open>Thirty bars for the Bull Flag detector: a flagpole from a close of 100 to a high of
  120, then a flag of fifteen bars closing at 95, below the flagpole start and above the
  flag low times the tolerance.\<close>

definition bull_flag_below_start_series :: "bar list" where
  "bull_flag_below_start_series =
     replicate 10 (ohlcv 100 101 99 100 1000) @ replicate 5 (ohlcv 100 120 99 100 1000) @
     replicate 15 (ohlcv 95 96 94 95 1000)"

text \<open>The same flagpole, a flag around 105, and a last bar whose close of 90 is recorded
  below its own low of 104 (a bad tick of the data feed): the close is below the flag low
  times the tolerance and below the flagpole start at once.\<close>

definition bull_flag_bad_tick_series :: "bar list" where
  "bull_flag_bad_tick_series =
     replicate 10 (ohlcv 100 101 99 100 1000) @ replicate 5 (ohlcv 100 120 99 100 1000) @
     replicate 14 (ohlcv 105 106 104 105 1000) @ [ohlcv 105 106 104 90 1000]"

text \<open>Thirty bars for the Cup Handle detector: a cup from 100 down to a low of 80 and back
  to 100, then a handle of nine bars that falls to 65, on flat volume.\<close>

definition cup_deep_handle_series :: "bar list" where
  "cup_deep_handle_series =
     replicate 3 (ohlcv 100 101 99 100 1000) @ [ohlcv 100 101 99 100 1000] @
     replicate 16 (ohlcv 85 86 80 85 1000) @ [ohlcv 100 101 99 100 1000] @
     replicate 9 (ohlcv 65 66 60 65 1000)"

text \<open>Twenty-five bars that end in a green mother bar and one red bar strictly inside it
  (the bars of the spec's example).\<close>

definition inside_bar_series :: "bar list" where
  "inside_bar_series =
     replicate 23 (ohlcv 10 11 9 10 1000) @
     [ohlcv 10 12 9 11 1000, ohlcv 10.5 11.5 9.5 10 1000]"

text \<open>Twenty-five bars that end in a green mother bar followed by two red bars, each
  strictly inside the mother bar and the second also strictly inside the first.\<close>

definition double_inside_bar_series :: "bar list" where
  "double_inside_bar_series =
     replicate 22 (ohlcv 10 11 9 10 1000) @
     [ohlcv 10 12 9 11 1000, ohlcv 10.5 11.5 9.5 10 1000, ohlcv 10.4 11.4 9.6 10.1 1000]"

section \<open>Series access and score arithmetic\<close>

lemma iloc_neg_Some: "0 < k \<Longrightarrow> k \<le> int (length xs) \<Longrightarrow> \<exists>v. iloc xs (- k) = Some v"
  by (simp add: iloc_def Let_def)

lemma iloc_Close:
  "0 < k \<Longrightarrow> k \<le> int (length data) \<Longrightarrow> \<exists>v. iloc (map Close data) (- k) = Some v"
  using iloc_neg_Some [of k "map Close data"] by simp

lemma first_offset_Some:
  "\<forall>i\<in>set js. 0 < i \<and> i \<le> int (length xs) \<Longrightarrow> \<exists>r. first_offset P xs js d = Some r"
proof (induction js)
  case Nil
  then show ?case by simp
next
  case (Cons j js)
  then obtain h where "iloc xs (- j) = Some h"
    using iloc_neg_Some [of j xs] by auto
  with Cons show ?case by simp
qed

lemma fst_award: "fst (award p kvs s) = fst s + p"
  by (simp add: award_def)

lemma fst_scale: "fst (scale f kvs s) = fst s * f"
  by (simp add: scale_def)

lemma put_all_other: "k \<notin> fst ` set kvs \<Longrightarrow> put_all kvs m k = m k"
  unfolding put_all_def by (induction kvs arbitrary: m) auto

lemma snd_award_other: "k \<notin> fst ` set kvs \<Longrightarrow> snd (award p kvs s) k = snd s k"
  by (simp add: award_def put_all_other)

lemma snd_scale_other: "k \<notin> fst ` set kvs \<Longrightarrow> snd (scale f kvs s) k = snd s k"
  by (simp add: scale_def put_all_other)

lemma length_ewm_from: "length (ewm_from a n d xs) = length xs"
  by (induction xs arbitrary: n d) (simp_all add: Let_def)

lemma length_macd:
  "macd_components data = (ml, sl, h) \<Longrightarrow>
     length ml = length data \<and> length sl = length data \<and> length h = length data"
  by (auto simp: macd_components_def Let_def ewm_mean_def series_sub_def length_ewm_from)

section \<open>Windows behind the length guards are not empty\<close>

text \<open>The aggregates \<open>series_max\<close>, \<open>series_min\<close> and \<open>mean\<close> are only applied
  to windows with at least one bar.\<close>

lemma length_tail: "length (tail n xs) = min n (length xs)"
  by (simp add: tail_def)

lemma length_islice_neg:
  assumes "0 < b" "b \<le> a" "a \<le> int (length xs)"
  shows "int (length (islice xs (- a) (- b))) = a - b"
  using assms by (simp add: islice_def slice_bound_def Let_def)

lemma volume_windows_nonempty:
  assumes "20 \<le> length data"
  shows "map Volume (tail 20 data) \<noteq> [] \<and> map Volume (tail 5 data) \<noteq> []"
proof -
  from assms have "length (tail 20 data) = 20" "length (tail 5 data) = 5"
    by (simp_all add: length_tail)
  then show ?thesis by auto
qed

lemma flat_top_windows_nonempty:
  assumes "50 \<le> length data"
  shows "length (islice data (- ft_ascent_start data) (- 25)) \<ge> 10
         \<and> length (ft_descent_data data) = 15 \<and> length (tail 15 data) = 15
         \<and> length (tail 20 data) = 20"
proof -
  from assms have a: "35 \<le> ft_ascent_start data" "ft_ascent_start data \<le> int (length data)"
    by (simp_all add: ft_ascent_start_def)
  from a have "int (length (islice data (- ft_ascent_start data) (- 25))) = ft_ascent_start data - 25"
    by (intro length_islice_neg) simp_all
  with a have "10 \<le> length (islice data (- ft_ascent_start data) (- 25))" by linarith
  moreover from assms have "int (length (islice data (- 25) (- 10))) = 25 - 10"
    by (intro length_islice_neg) simp_all
  then have "length (ft_descent_data data) = 15"
    by (simp add: ft_descent_data_def)
  ultimately show ?thesis using assms by (simp add: length_tail)
qed

lemma bull_flag_windows_nonempty:
  assumes "30 \<le> length data"
  shows "length (islice data (- bf_flagpole_start data) (- 15)) \<ge> 5
         \<and> length (tail 15 data) = 15"
proof -
  from assms have a: "20 \<le> bf_flagpole_start data" "bf_flagpole_start data \<le> int (length data)"
    by (simp_all add: bf_flagpole_start_def)
  from a have "int (length (islice data (- bf_flagpole_start data) (- 15))) = bf_flagpole_start data - 15"
    by (intro length_islice_neg) simp_all
  with a have "5 \<le> length (islice data (- bf_flagpole_start data) (- 15))" by linarith
  then show ?thesis using assms by (simp add: length_tail)
qed

lemma volume_cup_windows_nonempty:
  assumes "5 < min 30 (int (length data) div 3)"
  shows "tail (nat (min 30 (int (length data) div 3))) data \<noteq> []"
proof -
  from assms have "0 < length data" by auto
  with assms have "0 < length (tail (nat (min 30 (int (length data) div 3))) data)"
    by (simp add: length_tail)
  then show ?thesis by auto
qed

section \<open>The backward scan of the Inside Bar detector\<close>

text \<open>The scan ends in one of two states. The first offset either fails, or it makes the
  bar at offset \<open>-2\<close> the green mother bar; the second offset then needs that same bar
  to be red, so it never qualifies.\<close>

lemma scan_cases:
  "scan_result data tf = (None, 0, []) \<or> scan_result data tf = (Some (- 2), 1, [- 1])"
  unfolding scan_result_def max_lookback_range_def
  by (auto simp: qualifies_def Let_def split: option.splits)

section \<open>Scores are never negative\<close>

lemma volume_tier_nonneg:
  "points_nonneg cfg \<Longrightarrow> 0 \<le> fst s \<Longrightarrow> 0 \<le> fst (volume_tier cfg q s)"
  by (simp add: volume_tier_def points_nonneg_def fst_award)

lemma volume_bull_flag_nonneg:
  "points_nonneg cfg \<Longrightarrow> 0 \<le> fst s \<Longrightarrow> 0 \<le> fst (volume_bull_flag cfg data info s)"
  by (simp add: volume_bull_flag_def points_nonneg_def fst_award Let_def)

lemma volume_cup_handle_nonneg:
  "points_nonneg cfg \<Longrightarrow> 0 \<le> fst s \<Longrightarrow> 0 \<le> fst (volume_cup_handle cfg data s)"
  by (simp add: volume_cup_handle_def points_nonneg_def fst_award Let_def)

lemma volume_flat_top_nonneg:
  "points_nonneg cfg \<Longrightarrow> 0 \<le> fst s \<Longrightarrow> 0 \<le> fst (volume_flat_top cfg data cv s)"
  by (simp add: volume_flat_top_def points_nonneg_def fst_award Let_def)

lemma volume_inside_bar_nonneg:
  "points_nonneg cfg \<Longrightarrow> 0 \<le> fst s \<Longrightarrow> 0 \<le> fst (volume_inside_bar cfg q s)"
  by (simp add: volume_inside_bar_def points_nonneg_def fst_award Let_def)

lemma volume_trend_bonus_nonneg:
  "0 \<le> fst s \<Longrightarrow> 0 \<le> fst (volume_trend_bonus data s)"
  by (simp add: volume_trend_bonus_def fst_award Let_def)

lemma analyze_volume_nonneg:
  assumes "points_nonneg cfg" and "analyze_volume_pattern cfg data pt info = Some v"
  shows "0 \<le> fst v"
  using assms(2)
  by (auto simp: analyze_volume_pattern_def Let_def fst_award assms(1)
      volume_trend_bonus_nonneg volume_bull_flag_nonneg volume_cup_handle_nonneg
      volume_flat_top_nonneg volume_inside_bar_nonneg volume_tier_nonneg
      split: if_splits Option.bind_splits)

lemma analyze_volume_total:
  "\<exists>v. analyze_volume_pattern cfg data pt info = Some v"
proof (cases "length data < 20")
  case True
  then show ?thesis by (simp add: analyze_volume_pattern_def)
next
  case False
  then obtain cv where "iloc (map Volume data) (- 1) = Some cv"
    using iloc_neg_Some [of 1 "map Volume data"] by auto
  with False show ?thesis by (simp add: analyze_volume_pattern_def Let_def)
qed

lemma volume_cap_nonneg:
  "points_nonneg cfg \<Longrightarrow> 0 \<le> fst s \<Longrightarrow> 0 \<le> fst (volume_cap cfg vi s)"
  by (simp add: volume_cap_def points_nonneg_def)

lemma add_volume_nonneg: "0 \<le> fst v \<Longrightarrow> 0 \<le> fst s \<Longrightarrow> 0 \<le> fst (add_volume v s)"
  by (simp add: add_volume_def)

lemma inside_bar_formation_nonneg:
  "0 \<le> fst s \<Longrightarrow> 0 \<le> fst (inside_bar_formation tf mb ib n s)"
  by (simp add: inside_bar_formation_def fst_award Let_def)

lemma inside_bar_geometry_nonneg:
  "0 \<le> fst s \<Longrightarrow> 0 \<le> fst (inside_bar_geometry cfg tf mb ib s)"
  by (simp add: inside_bar_geometry_def fst_award Let_def)

lemma inside_bar_confirmation_nonneg:
  "0 \<le> fst s \<Longrightarrow> 0 \<le> fst (inside_bar_confirmation a b c d e ib s)"
  by (simp add: inside_bar_confirmation_def fst_award Let_def)

lemma inside_bar_aging_nonneg:
  "0 \<le> fst s \<Longrightarrow> 0 \<le> fst (inside_bar_aging tf i s)"
  by (simp add: inside_bar_aging_def fst_scale Let_def)

lemma detect_inside_bar_nonneg:
  assumes "points_nonneg cfg"
    and "detect_inside_bar cfg data ml sl h ctx tf = Some r"
  shows "0 \<le> fst r"
  using assms(2)
  by (auto simp: detect_inside_bar_def Let_def assms(1)
      inside_bar_aging_nonneg volume_cap_nonneg add_volume_nonneg
      inside_bar_confirmation_nonneg inside_bar_geometry_nonneg inside_bar_formation_nonneg
      dest: analyze_volume_nonneg [OF assms(1)]
      split: if_splits Option.bind_splits prod.splits)

lemma ft_structure_nonneg: "0 \<le> fst s \<Longrightarrow> 0 \<le> fst (ft_structure cfg data s)"
  by (simp add: ft_structure_def fst_award Let_def)

lemma detect_flat_top_nonneg:
  assumes "points_nonneg cfg"
    and "detect_flat_top cfg data ml sl h ctx = Some r"
  shows "0 \<le> fst r"
  using assms(2)
  by (auto simp: detect_flat_top_def Let_def assms(1) fst_award ft_ascent_score_def
      volume_cap_nonneg add_volume_nonneg ft_structure_nonneg
      dest: analyze_volume_nonneg [OF assms(1)]
      split: if_splits Option.bind_splits)

lemma bf_pullback_score_nonneg: "0 \<le> fst (bf_pullback_score cfg data a b c)"
  by (simp add: bf_pullback_score_def fst_award Let_def)

lemma bf_confirmation_nonneg: "0 \<le> fst s \<Longrightarrow> 0 \<le> fst (bf_confirmation a b c d s)"
  by (simp add: bf_confirmation_def fst_award Let_def)

lemma detect_bull_flag_nonneg:
  assumes "points_nonneg cfg"
    and "detect_bull_flag cfg data ml sl h ctx = Some r"
  shows "0 \<le> fst r"
  using assms(2)
  by (auto simp: detect_bull_flag_def Let_def assms(1) fst_award
      volume_cap_nonneg add_volume_nonneg bf_pullback_score_nonneg
      bf_confirmation_nonneg
      dest: analyze_volume_nonneg [OF assms(1)]
      split: if_splits Option.bind_splits)

lemma cup_handle_analysis_nonneg:
  "0 \<le> fst s \<Longrightarrow> 0 \<le> fst (cup_handle_analysis cfg data cr s)"
  by (simp add: cup_handle_analysis_def fst_award fst_scale Let_def)

lemma cup_position_nonneg:
  "0 \<le> fst s \<Longrightarrow> 0 \<le> fst (cup_position data cp bl s)"
  by (simp add: cup_position_def fst_award fst_scale Let_def)

lemma cup_handle_running_nonneg:
  assumes "points_nonneg cfg"
    and "cup_handle_running cfg data ml sl = Some (Running s vi)"
  shows "0 \<le> fst s"
  using assms(2)
  by (auto simp: cup_handle_running_def Let_def assms(1) fst_award
      add_volume_nonneg cup_position_nonneg cup_handle_analysis_nonneg
      dest: analyze_volume_nonneg [OF assms(1)]
      split: if_splits Option.bind_splits)

lemma detect_cup_handle_nonneg:
  assumes "points_nonneg cfg"
    and "detect_cup_handle cfg data ml sl h ctx = Some r"
  shows "0 \<le> fst r"
  using assms(2)
  by (auto simp: detect_cup_handle_def assms(1) volume_cap_nonneg
      dest: cup_handle_running_nonneg [OF assms(1)]
      split: if_splits Option.bind_splits cup_stage.splits)

lemma route_range:
  assumes "points_nonneg cfg"
    and "route cfg data pt ctx tf ml sl h = Some r"
  shows "0 \<le> fst r \<and> fst r \<le> 100"
  using assms(2)
  by (auto simp: route_def
      dest!: detect_flat_top_nonneg [OF assms(1)] detect_bull_flag_nonneg [OF assms(1)]
        detect_cup_handle_nonneg [OF assms(1)] detect_inside_bar_nonneg [OF assms(1)]
      split: if_splits Option.bind_splits)

section \<open>The detectors return\<close>

text \<open>With indicator series as long as the bar series, as the dispatcher computes them, no
  read of a detector is outside its series.\<close>

lemma analyze_volume_not_None: "analyze_volume_pattern cfg data pt info \<noteq> None"
  using analyze_volume_total [of cfg data pt info] by auto

lemma ft_days_old_total: "10 \<le> length data \<Longrightarrow> \<exists>d. ft_days_old cfg data = Some d"
  unfolding ft_days_old_def by (rule first_offset_Some) auto

lemma bf_days_old_total: "10 \<le> length data \<Longrightarrow> \<exists>d. bf_days_old data = Some d"
  unfolding bf_days_old_def by (rule first_offset_Some) auto

lemma detect_flat_top_total:
  assumes "length ml = length data" "length sl = length data"
  shows "detect_flat_top cfg data ml sl h ctx \<noteq> None"
proof (cases "length data < 50")
  case True
  then show ?thesis by (simp add: detect_flat_top_def)
next
  case False
  then have "0 < ft_ascent_start data" "ft_ascent_start data \<le> int (length data)"
    by (simp_all add: ft_ascent_start_def)
  then obtain sp where sp: "iloc (map Close data) (- ft_ascent_start data) = Some sp"
    using iloc_Close [of "ft_ascent_start data" data] by blast
  from False obtain cp where cp: "iloc (map Close data) (- 1) = Some cp"
    using iloc_Close [of 1 data] by auto
  from False obtain d where d: "ft_days_old cfg data = Some d"
    using ft_days_old_total [of data cfg] by auto
  from False assms obtain m where m: "iloc ml (- 1) = Some m"
    using iloc_neg_Some [of 1 ml] by auto
  from False assms obtain g where g: "iloc sl (- 1) = Some g"
    using iloc_neg_Some [of 1 sl] by auto
  show ?thesis
    using False sp cp d m g
    by (simp add: detect_flat_top_def Let_def bind_eq_None_conv analyze_volume_not_None
        del: not_None_eq)
qed

lemma detect_bull_flag_total:
  assumes "length ml = length data" "length sl = length data" "length h = length data"
  shows "detect_bull_flag cfg data ml sl h ctx \<noteq> None"
proof (cases "length data < 30")
  case True
  then show ?thesis by (simp add: detect_bull_flag_def)
next
  case False
  then have "0 < bf_flagpole_start data" "bf_flagpole_start data \<le> int (length data)"
    by (simp_all add: bf_flagpole_start_def)
  then obtain sp where sp: "iloc (map Close data) (- bf_flagpole_start data) = Some sp"
    using iloc_Close [of "bf_flagpole_start data" data] by blast
  from False obtain fs where fs: "iloc (map Close data) (- 15) = Some fs"
    using iloc_Close [of 15 data] by auto
  from False obtain cp where cp: "iloc (map Close data) (- 1) = Some cp"
    using iloc_Close [of 1 data] by auto
  from False obtain d where d: "bf_days_old data = Some d"
    using bf_days_old_total [of data] by auto
  from False assms obtain m where m: "iloc ml (- 1) = Some m"
    using iloc_neg_Some [of 1 ml] by auto
  from False assms obtain g where g: "iloc sl (- 1) = Some g"
    using iloc_neg_Some [of 1 sl] by auto
  from False assms obtain h1 where h1: "iloc h (- 1) = Some h1"
    using iloc_neg_Some [of 1 h] by auto
  from False assms obtain h3 where h3: "iloc h (- 3) = Some h3"
    using iloc_neg_Some [of 3 h] by auto
  show ?thesis
    using False sp fs cp d m g h1 h3
    by (simp add: detect_bull_flag_def Let_def bind_eq_None_conv analyze_volume_not_None
        del: not_None_eq)
qed

lemma cup_handle_running_total:
  assumes "length ml = length data" "length sl = length data"
  shows "cup_handle_running cfg data ml sl \<noteq> None"
proof (cases "length data < 30 \<or> length (cup_data data) < 15")
  case True
  then show ?thesis by (auto simp: cup_handle_running_def)
next
  case False
  then have len: "0 < length (cup_data data)" by linarith
  then have "\<exists>v. iloc (map Close (cup_data data)) 0 = Some v"
    by (simp add: iloc_def Let_def)
  then obtain cs where cs: "iloc (map Close (cup_data data)) 0 = Some cs" ..
  from len have "(1::int) \<le> int (length (cup_data data))" by linarith
  then obtain cr where cr: "iloc (map Close (cup_data data)) (- 1) = Some cr"
    using iloc_Close [of 1 "cup_data data"] by auto
  from False obtain cp where cp: "iloc (map Close data) (- 1) = Some cp"
    using iloc_Close [of 1 data] by auto
  from False assms obtain m where m: "iloc ml (- 1) = Some m"
    using iloc_neg_Some [of 1 ml] by auto
  from False assms obtain g where g: "iloc sl (- 1) = Some g"
    using iloc_neg_Some [of 1 sl] by auto
  show ?thesis
    using False cs cr cp m g
    by (simp add: cup_handle_running_def Let_def bind_eq_None_conv analyze_volume_not_None
        del: not_None_eq)
qed

lemma detect_cup_handle_total:
  assumes "length ml = length data" "length sl = length data"
  shows "detect_cup_handle cfg data ml sl h ctx \<noteq> None"
proof -
  obtain st where "cup_handle_running cfg data ml sl = Some st"
    using cup_handle_running_total [OF assms] by auto
  then show ?thesis
    by (cases st) (simp_all add: detect_cup_handle_def)
qed

lemma detect_inside_bar_total:
  assumes "length ml = length data" "length sl = length data" "length h = length data"
  shows "detect_inside_bar cfg data ml sl h ctx tf \<noteq> None"
proof (cases "length data < 5")
  case True
  then show ?thesis by (simp add: detect_inside_bar_def)
next
  case False
  from False obtain mb where mb: "iloc data (- 2) = Some mb"
    using iloc_neg_Some [of 2 data] by auto
  from False obtain ib where ib: "iloc data (- 1) = Some ib"
    using iloc_neg_Some [of 1 data] by auto
  from False obtain cp where cp: "iloc (map Close data) (- 1) = Some cp"
    using iloc_Close [of 1 data] by auto
  from False assms obtain m where m: "iloc ml (- 1) = Some m"
    using iloc_neg_Some [of 1 ml] by auto
  from False assms obtain g where g: "iloc sl (- 1) = Some g"
    using iloc_neg_Some [of 1 sl] by auto
  from False assms obtain h1 where h1: "iloc h (- 1) = Some h1"
    using iloc_neg_Some [of 1 h] by auto
  from False assms obtain h3 where h3: "iloc h (- 3) = Some h3"
    using iloc_neg_Some [of 3 h] by auto
  have i0: "iloc [- 1 :: int] 0 = Some (- 1)"
    by (simp add: iloc_def)
  from scan_cases [of data tf] show ?thesis
  proof
    assume "scan_result data tf = (None, 0, [])"
    with False show ?thesis by (simp add: detect_inside_bar_def)
  next
    assume "scan_result data tf = (Some (- 2), 1, [- 1])"
    with False mb ib cp m g h1 h3 i0 show ?thesis
      by (simp add: detect_inside_bar_def Let_def bind_eq_None_conv analyze_volume_not_None
          del: not_None_eq)
  qed
qed

section \<open>The dispatcher\<close>

lemma route_total:
  assumes "length ml = length data" "length sl = length data" "length h = length data"
  shows "route cfg data pt ctx tf ml sl h \<noteq> None"
  using detect_flat_top_total [OF assms(1,2), of cfg h ctx]
    detect_bull_flag_total [OF assms, of cfg ctx]
    detect_cup_handle_total [OF assms(1,2), of cfg h ctx]
    detect_inside_bar_total [OF assms, of cfg ctx tf]
  by (simp add: route_def bind_eq_None_conv del: not_None_eq)

lemma detect_pattern_short:
  "length data < 10 \<Longrightarrow> detect_pattern cfg data pt ctx tf = Some (False, 0, Map.empty)"
  by (simp add: detect_pattern_def)

lemma detect_pattern_long:
  assumes "\<not> length data < 10"
  shows "\<exists>r. route cfg data pt ctx tf (fst (macd_components data))
                (fst (snd (macd_components data))) (snd (snd (macd_components data))) = Some r
             \<and> detect_pattern cfg data pt ctx tf =
                 Some (55 \<le> fst r, fst r,
                   (snd r)(''macd_line'' \<mapsto> VSeries (fst (macd_components data)),
                           ''signal_line'' \<mapsto> VSeries (fst (snd (macd_components data))),
                           ''histogram'' \<mapsto> VSeries (snd (snd (macd_components data)))))"
proof -
  obtain ml sl h where m: "macd_components data = (ml, sl, h)"
    by (cases "macd_components data") auto
  from length_macd [OF m] obtain r where
    r: "route cfg data pt ctx tf ml sl h = Some r"
    using route_total [of ml data sl h cfg pt ctx tf] by auto
  from assms m r show ?thesis
    by (simp add: detect_pattern_def Let_def)
qed

text \<open>Claim C1. For every bar series, pattern name, market context and timeframe tag the
  dispatcher returns, and the confidence it returns lies between 0 and 100. The upper bound
  is the clamp of the dispatcher; the lower bound holds because every detector starts at 0
  and only adds points, multiplies by a positive factor or resets to 0. The points that
  come from the configuration are taken to be non-negative (\<open>points_nonneg\<close>).\<close>

theorem detect_pattern_confidence_range:
  assumes "points_nonneg cfg"
  shows "\<exists>detected confidence info.
           detect_pattern cfg data pattern_type market_context timeframe
             = Some (detected, confidence, info)
           \<and> 0 \<le> confidence \<and> confidence \<le> 100"
proof (cases "length data < 10")
  case True
  have "detect_pattern cfg data pattern_type market_context timeframe
          = Some (False, 0, Map.empty) \<and> (0::real) \<le> 0 \<and> (0::real) \<le> 100"
    using detect_pattern_short [OF True] by simp
  then show ?thesis by (intro exI)
next
  case False
  from detect_pattern_long [OF False, of cfg pattern_type market_context timeframe]
  obtain r where
    r: "route cfg data pattern_type market_context timeframe (fst (macd_components data))
          (fst (snd (macd_components data))) (snd (snd (macd_components data))) = Some r"
    and d: "detect_pattern cfg data pattern_type market_context timeframe =
          Some (55 \<le> fst r, fst r,
            (snd r)(''macd_line'' \<mapsto> VSeries (fst (macd_components data)),
                    ''signal_line'' \<mapsto> VSeries (fst (snd (macd_components data))),
                    ''histogram'' \<mapsto> VSeries (snd (snd (macd_components data)))))"
    by (elim exE conjE)
  from route_range [OF assms r] have "0 \<le> fst r \<and> fst r \<le> 100" .
  then show ?thesis unfolding d by simp
qed


text \<open>The sample configuration satisfies the condition, so the range holds for it.\<close>

theorem detect_pattern_confidence_range_witness:
  "points_nonneg sample_config \<and>
   (\<exists>detected confidence info.
      detect_pattern sample_config ten_bars ''Bull Flag'' () ''daily''
        = Some (detected, confidence, info)
      \<and> 0 \<le> confidence \<and> confidence \<le> 100)"
proof
  show h: "points_nonneg sample_config"
    by (simp add: points_nonneg_def sample_config_def)
  show "\<exists>detected confidence info.
      detect_pattern sample_config ten_bars ''Bull Flag'' () ''daily''
        = Some (detected, confidence, info)
      \<and> 0 \<le> confidence \<and> confidence \<le> 100"
    by (rule detect_pattern_confidence_range [OF h])
qed

text \<open>Claim C2. A detector called with a series shorter than its minimum (5 bars for
  Inside Bar, 30 for Bull Flag and Cup Handle, 50 for Flat Top) returns confidence 0 and
  the empty fact map, and the dispatcher called with fewer than 10 bars returns
  \<open>(False, 0, {})\<close>.\<close>

theorem short_series_empty_result:
  "(length data < 5 \<longrightarrow>
      detect_inside_bar cfg data macd_line signal_line histogram market_context timeframe
        = Some (0, Map.empty)) \<and>
   (length data < 30 \<longrightarrow>
      detect_bull_flag cfg data macd_line signal_line histogram market_context
        = Some (0, Map.empty)) \<and>
   (length data < 30 \<longrightarrow>
      detect_cup_handle cfg data macd_line signal_line histogram market_context
        = Some (0, Map.empty)) \<and>
   (length data < 50 \<longrightarrow>
      detect_flat_top cfg data macd_line signal_line histogram market_context
        = Some (0, Map.empty)) \<and>
   (length data < 10 \<longrightarrow>
      detect_pattern cfg data pattern_type market_context timeframe
        = Some (False, 0, Map.empty))"
  by (simp add: detect_inside_bar_def detect_bull_flag_def detect_cup_handle_def
      cup_handle_running_def detect_flat_top_def detect_pattern_def)

text \<open>Four bars are below every one of these minimums.\<close>

theorem short_series_empty_result_witness:
  "length short_series < 5 \<and>
   detect_inside_bar sample_config short_series [] [] [] () ''daily'' = Some (0, Map.empty) \<and>
   detect_bull_flag sample_config short_series [] [] [] () = Some (0, Map.empty) \<and>
   detect_cup_handle sample_config short_series [] [] [] () = Some (0, Map.empty) \<and>
   detect_flat_top sample_config short_series [] [] [] () = Some (0, Map.empty) \<and>
   detect_pattern sample_config short_series ''Inside Bar'' () ''daily''
     = Some (False, 0, Map.empty)"
proof -
  have len: "length short_series = 4"
    by (simp add: short_series_def)
  show ?thesis
    using short_series_empty_result
      [of short_series sample_config "[]" "[]" "[]" "()" "''daily''" "''Inside Bar''"]
    by (simp add: len)
qed

text \<open>Claim C7, as amended. For every series of at least 10 bars the fact map the
  dispatcher returns carries the three indicator series, whatever the detector returned
  and also when the pattern name matches no detector. The series-length guard returns
  before the indicators are computed, so a shorter series gets the empty fact map.\<close>

theorem detect_pattern_attaches_indicators:
  assumes "10 \<le> length data"
  shows "\<exists>detected confidence info.
           detect_pattern cfg data pattern_type market_context timeframe
             = Some (detected, confidence, info)
           \<and> info ''macd_line'' = Some (VSeries (fst (macd_components data)))
           \<and> info ''signal_line'' = Some (VSeries (fst (snd (macd_components data))))
           \<and> info ''histogram'' = Some (VSeries (snd (snd (macd_components data))))
           \<and> has_indicator_triple info"
proof -
  from assms have long: "\<not> length data < 10" by simp
  from detect_pattern_long [OF long, of cfg pattern_type market_context timeframe]
  obtain r where
    d: "detect_pattern cfg data pattern_type market_context timeframe =
          Some (55 \<le> fst r, fst r,
            (snd r)(''macd_line'' \<mapsto> VSeries (fst (macd_components data)),
                    ''signal_line'' \<mapsto> VSeries (fst (snd (macd_components data))),
                    ''histogram'' \<mapsto> VSeries (snd (snd (macd_components data)))))"
    by (elim exE conjE)
  show ?thesis unfolding d by (simp add: has_indicator_triple_def)
qed

text \<open>Ten bars and a pattern name that no branch matches.\<close>

theorem detect_pattern_attaches_indicators_witness:
  "10 \<le> length ten_bars \<and>
   (\<exists>detected confidence info.
      detect_pattern sample_config ten_bars ''No Such Pattern'' () ''daily''
        = Some (detected, confidence, info)
      \<and> info ''macd_line'' = Some (VSeries (fst (macd_components ten_bars)))
      \<and> info ''signal_line'' = Some (VSeries (fst (snd (macd_components ten_bars))))
      \<and> info ''histogram'' = Some (VSeries (snd (snd (macd_components ten_bars))))
      \<and> has_indicator_triple info)"
proof
  show h: "10 \<le> length ten_bars" by (simp add: ten_bars_def)
  show "\<exists>detected confidence info.
      detect_pattern sample_config ten_bars ''No Such Pattern'' () ''daily''
        = Some (detected, confidence, info)
      \<and> info ''macd_line'' = Some (VSeries (fst (macd_components ten_bars)))
      \<and> info ''signal_line'' = Some (VSeries (fst (snd (macd_components ten_bars))))
      \<and> info ''histogram'' = Some (VSeries (snd (snd (macd_components ten_bars))))
      \<and> has_indicator_triple info"
    by (rule detect_pattern_attaches_indicators [OF h])
qed

text \<open>Claim C7 as stated fails when the series-length guard fires: the fact map returned
  for four bars is empty and so has no indicator series.\<close>

theorem short_series_has_no_indicators:
  "detect_pattern sample_config short_series ''Inside Bar'' () ''daily''
     = Some (False, 0, Map.empty) \<and> \<not> has_indicator_triple Map.empty"
proof -
  have len: "length short_series = 4"
    by (simp add: short_series_def)
  show ?thesis
    by (simp add: detect_pattern_def len has_indicator_triple_def)
qed

section \<open>Keys of the fact map\<close>

lemma dom_put_all: "dom (put_all kvs m) = dom m \<union> fst ` set kvs"
  unfolding put_all_def by (induction kvs arbitrary: m) auto

lemma dom_award: "dom (snd (award p kvs s)) = dom (snd s) \<union> fst ` set kvs"
  by (simp add: award_def dom_put_all)

lemma dom_scale: "dom (snd (scale f kvs s)) = dom (snd s) \<union> fst ` set kvs"
  by (simp add: scale_def dom_put_all)

lemma volume_tier_dom:
  "dom (snd s) \<subseteq> volume_fact_keys \<Longrightarrow> dom (snd (volume_tier cfg q s)) \<subseteq> volume_fact_keys"
  by (simp add: volume_tier_def dom_award) (simp add: volume_fact_keys_def)

lemma volume_bull_flag_dom:
  "dom (snd s) \<subseteq> volume_fact_keys \<Longrightarrow>
     dom (snd (volume_bull_flag cfg data info s)) \<subseteq> volume_fact_keys"
  by (simp add: volume_bull_flag_def dom_award Let_def) (simp add: volume_fact_keys_def)

lemma volume_cup_handle_dom:
  "dom (snd s) \<subseteq> volume_fact_keys \<Longrightarrow>
     dom (snd (volume_cup_handle cfg data s)) \<subseteq> volume_fact_keys"
  by (simp add: volume_cup_handle_def dom_award Let_def) (simp add: volume_fact_keys_def)

lemma volume_flat_top_dom:
  "dom (snd s) \<subseteq> volume_fact_keys \<Longrightarrow>
     dom (snd (volume_flat_top cfg data cv s)) \<subseteq> volume_fact_keys"
  by (simp add: volume_flat_top_def dom_award Let_def) (simp add: volume_fact_keys_def)

lemma volume_inside_bar_dom:
  "dom (snd s) \<subseteq> volume_fact_keys \<Longrightarrow>
     dom (snd (volume_inside_bar cfg q s)) \<subseteq> volume_fact_keys"
  by (simp add: volume_inside_bar_def dom_award Let_def) (simp add: volume_fact_keys_def)

lemma volume_trend_bonus_dom:
  "dom (snd s) \<subseteq> volume_fact_keys \<Longrightarrow>
     dom (snd (volume_trend_bonus data s)) \<subseteq> volume_fact_keys"
  by (simp add: volume_trend_bonus_def dom_award Let_def) (simp add: volume_fact_keys_def)

lemma volume_base_dom:
  "dom (snd (award 0 [(''avg_volume_20'', a), (''current_volume'', b),
      (''volume_multiplier'', c), (''recent_multiplier'', d)] (0, Map.empty)))
     \<subseteq> volume_fact_keys"
  by (simp add: dom_award volume_fact_keys_def)

lemma analyze_volume_dom:
  assumes "analyze_volume_pattern cfg data pt info = Some v"
  shows "dom (snd v) \<subseteq> volume_fact_keys"
proof (cases "length data < 20")
  case True
  with assms show ?thesis by (auto simp: analyze_volume_pattern_def)
next
  case False
  then obtain cv where cv: "iloc (map Volume data) (- 1) = Some cv"
    using iloc_neg_Some [of 1 "map Volume data"] by auto
  from False have "dom (snd (the (analyze_volume_pattern cfg data pt info))) \<subseteq> volume_fact_keys"
    by (simp add: analyze_volume_pattern_def Let_def cv
        volume_trend_bonus_dom volume_bull_flag_dom volume_cup_handle_dom
        volume_flat_top_dom volume_inside_bar_dom volume_tier_dom volume_base_dom)
  with assms show ?thesis by simp
qed

lemma analyze_volume_lacks:
  assumes "analyze_volume_pattern cfg data pt info = Some v" and "k \<notin> volume_fact_keys"
  shows "snd v k = None"
  using analyze_volume_dom [OF assms(1)] assms(2) by (auto simp: domIff)

lemma add_volume_other: "snd v k = None \<Longrightarrow> snd (add_volume v s) k = snd s k"
  by (simp add: add_volume_def map_add_def)

lemma volume_cap_other:
  "k \<noteq> ''confidence_capped'' \<Longrightarrow> snd (volume_cap cfg vi s) k = snd s k"
  by (simp add: volume_cap_def)

lemma inside_bar_formation_other:
  assumes "k = ''pattern_aging'' \<or> k = ''age_periods''"
  shows "snd (inside_bar_formation tf mb ib n s) k = snd s k"
  using assms
  by (elim disjE) (simp_all add: inside_bar_formation_def snd_award_other Let_def)

lemma inside_bar_geometry_other:
  assumes "k = ''pattern_aging'' \<or> k = ''age_periods''"
  shows "snd (inside_bar_geometry cfg tf mb ib s) k = snd s k"
  using assms
  by (elim disjE) (simp_all add: inside_bar_geometry_def snd_award_other Let_def)

lemma inside_bar_confirmation_other:
  assumes "k = ''pattern_aging'' \<or> k = ''age_periods''"
  shows "snd (inside_bar_confirmation a b c d e ib s) k = snd s k"
  using assms
  by (elim disjE) (simp_all add: inside_bar_confirmation_def snd_award_other Let_def)

lemma inside_bar_aging_recent: "inside_bar_aging tf (- 2) s = s"
  by (simp add: inside_bar_aging_def aging_threshold_def)

lemma timeframe_info_other: "k \<noteq> ''timeframe'' \<Longrightarrow> timeframe_info tf k = None"
  by (simp add: timeframe_info_def)

section \<open>Inside Bar: position of the pattern\<close>

lemma inside_bar_no_aging:
  assumes "detect_inside_bar cfg data ml sl h ctx tf = Some r"
    and k: "k = ''pattern_aging'' \<or> k = ''age_periods''"
  shows "snd r k = None"
proof -
  from k have kt: "k \<noteq> ''timeframe''" and kc: "k \<noteq> ''confidence_capped''"
    and kv: "k \<notin> volume_fact_keys"
    by (auto simp: volume_fact_keys_def)
  show ?thesis
  proof (cases "length data < 5")
    case True
    with assms(1) show ?thesis by (auto simp: detect_inside_bar_def)
  next
    case False
    from scan_cases [of data tf] show ?thesis
    proof
      assume "scan_result data tf = (None, 0, [])"
      with False assms(1) show ?thesis
        by (auto simp: detect_inside_bar_def timeframe_info_other [OF kt])
    next
      assume sc: "scan_result data tf = (Some (- 2), 1, [- 1])"
      from False assms(1) show ?thesis
        by (auto simp: detect_inside_bar_def sc Let_def inside_bar_aging_recent
            volume_cap_other [OF kc] add_volume_other
            inside_bar_confirmation_other [OF k] inside_bar_geometry_other [OF k]
            inside_bar_formation_other [OF k] timeframe_info_other [OF kt]
            dest: analyze_volume_lacks [OF _ kv]
            split: if_splits Option.bind_splits)
    qed
  qed
qed

lemma inside_bar_zero_without_pattern:
  assumes "detect_inside_bar cfg data ml sl h ctx tf = Some r"
    and "scan_result data tf = (None, 0, [])"
  shows "fst r = 0"
  using assms by (auto simp: detect_inside_bar_def split: if_splits)

text \<open>Claim C9. Whenever \<^verbatim>\<open>detect_inside_bar\<close> returns a non-zero confidence, the scan
  has found exactly one inside bar, at offset \<open>-1\<close>, with the mother bar at offset
  \<open>-2\<close>. The mother bar is therefore never at or beyond the aging threshold (\<open>-6\<close>
  daily, \<open>-8\<close> weekly): no call takes the aging branch, and no result carries
  \<^verbatim>\<open>pattern_aging\<close> or \<^verbatim>\<open>age_periods\<close>.\<close>

theorem inside_bar_mother_at_minus_two:
  assumes "detect_inside_bar cfg data macd_line signal_line histogram market_context timeframe
             = Some (confidence, info)"
  shows "(confidence \<noteq> 0 \<longrightarrow> scan_result data timeframe = (Some (- 2), 1, [- 1]))
         \<and> info ''pattern_aging'' = None \<and> info ''age_periods'' = None"
proof (intro conjI impI)
  assume nz: "confidence \<noteq> 0"
  have "scan_result data timeframe \<noteq> (None, 0, [])"
  proof
    assume "scan_result data timeframe = (None, 0, [])"
    from inside_bar_zero_without_pattern [OF assms this] nz show False by simp
  qed
  with scan_cases [of data timeframe]
  show "scan_result data timeframe = (Some (- 2), 1, [- 1])" by simp
next
  show "info ''pattern_aging'' = None"
    using inside_bar_no_aging [OF assms, of "''pattern_aging''"] by simp
next
  show "info ''age_periods'' = None"
    using inside_bar_no_aging [OF assms, of "''age_periods''"] by simp
qed

text \<open>The bars of the spec's example score 90 before the cap and 70 after it.\<close>

theorem inside_bar_mother_at_minus_two_witness:
  "\<exists>info. detect_inside_bar sample_config inside_bar_series [0, 0, 0] [0, 0, 0] [0, 0, 0] () ''daily''
            = Some (70, info)
          \<and> scan_result inside_bar_series ''daily'' = (Some (- 2), 1, [- 1])
          \<and> info ''pattern_aging'' = None \<and> info ''age_periods'' = None"
proof -
  have "map_option fst
          (detect_inside_bar sample_config inside_bar_series [0, 0, 0] [0, 0, 0] [0, 0, 0] () ''daily'')
        = Some 70"
    by code_simp
  then obtain info where
    d: "detect_inside_bar sample_config inside_bar_series [0, 0, 0] [0, 0, 0] [0, 0, 0] () ''daily''
          = Some (70, info)"
    by auto
  from inside_bar_mother_at_minus_two [OF d] have
    "scan_result inside_bar_series ''daily'' = (Some (- 2), 1, [- 1])
     \<and> info ''pattern_aging'' = None \<and> info ''age_periods'' = None"
    by simp
  with d show ?thesis by (intro exI [of _ info]) simp
qed

lemma scan_count_not_two: "fst (snd (scan_result data tf)) \<noteq> 2"
  using scan_cases [of data tf] by auto

text \<open>Claim C8 asks for a series on which the detector counts two inside bars. There is
  none: the scan never ends with a count of 2. On a green mother bar followed by two red
  bars strictly inside it, the first offset compares the last bar with the red bar before
  it, finds that bar not green and stops, so the detector returns confidence 0 and only the
  timeframe fact.\<close>

theorem double_inside_bar_not_detected:
  "detect_inside_bar sample_config double_inside_bar_series [0, 0, 0] [0, 0, 0] [0, 0, 0] () ''daily''
     = Some (0, timeframe_info ''daily'')
   \<and> (\<forall>data timeframe. fst (snd (scan_result data timeframe)) \<noteq> 2)"
proof
  have sc: "scan_result double_inside_bar_series ''daily'' = (None, 0, [])"
    by code_simp
  have len: "length double_inside_bar_series = 25"
    by (simp add: double_inside_bar_series_def)
  show "detect_inside_bar sample_config double_inside_bar_series [0, 0, 0] [0, 0, 0] [0, 0, 0] () ''daily''
     = Some (0, timeframe_info ''daily'')"
    by (simp add: detect_inside_bar_def sc len)
  show "\<forall>data timeframe. fst (snd (scan_result data timeframe)) \<noteq> 2"
    by (simp add: scan_count_not_two)
qed

section \<open>Flat Top Breakout: the order of the exits\<close>

lemma ft_structure_other:
  assumes "k = ''pattern_broken'' \<or> k = ''break_reason''"
  shows "snd (ft_structure cfg data s) k = snd s k"
  using assms
  by (elim disjE) (simp_all add: ft_structure_def snd_award_other Let_def)

lemma ft_ascent_score_other:
  "k \<noteq> ''initial_ascension'' \<Longrightarrow> snd (ft_ascent_score data sp) k = None"
  by (simp add: ft_ascent_score_def snd_award_other)

lemma ft_ascent_score_eq:
  "ft_ascent_score data sp = (25, [''initial_ascension'' \<mapsto> VPct (ft_initial_gain data sp)])"
  by (simp add: ft_ascent_score_def award_def put_all_def)

text \<open>Claim C3. For a series of at least 50 bars that passes the ascent and the pullback
  test and is stale (\<^verbatim>\<open>days_old\<close> exceeds the configured daily age limit),
  \<^verbatim>\<open>detect_flat_top\<close> returns half the confidence accrued so far, with the accrued
  facts, \<^verbatim>\<open>pattern_stale\<close> and \<^verbatim>\<open>days_old\<close>. Nothing is assumed about the current
  close, so this holds also when the close is below the descent low times 0.95: the break
  check is not reached, and the result has no \<^verbatim>\<open>pattern_broken\<close> and no
  \<^verbatim>\<open>break_reason\<close>. The indicator series are not read on this path.\<close>

theorem flat_top_stale_before_break:
  assumes "50 \<le> length data"
    and "iloc (map Close data) (- ft_ascent_start data) = Some start_price"
    and "\<not> qlt (ft_initial_gain data start_price) (min_initial_gain cfg)"
    and "\<not> qlt (ft_pullback data) (min_pullback cfg)"
    and "ft_days_old cfg data = Some days_old"
    and "days_old > age_limit_flat_top cfg"
  shows "(let accrued = ft_structure cfg data (ft_ascent_score data start_price);
              info = (snd accrued)(''pattern_stale'' \<mapsto> VBool True, ''days_old'' \<mapsto> VInt days_old)
          in detect_flat_top cfg data macd_line signal_line histogram market_context
               = Some (fst accrued * 0.5, info)
             \<and> info ''pattern_broken'' = None \<and> info ''break_reason'' = None)"
proof -
  from assms(1) obtain cp where cp: "iloc (map Close data) (- 1) = Some cp"
    using iloc_Close [of 1 data] by auto
  have "snd (ft_structure cfg data (ft_ascent_score data start_price)) ''pattern_broken'' = None"
    "snd (ft_structure cfg data (ft_ascent_score data start_price)) ''break_reason'' = None"
    by (simp_all add: ft_structure_other ft_ascent_score_other)
  with assms cp show ?thesis
    by (simp add: detect_flat_top_def Let_def)
qed

text \<open>A stale series whose close of 100 is below the descent low of 110 times 0.95: the
  result is 12.5 with the stale flag, not the broken pattern.\<close>

theorem flat_top_stale_before_break_witness:
  "50 \<le> length flat_top_stale_series
   \<and> iloc (map Close flat_top_stale_series) (- 1) = Some 100
   \<and> (100::real) < ft_descent_low flat_top_stale_series * 0.95
   \<and> ft_days_old sample_config flat_top_stale_series = Some 11
   \<and> 11 > age_limit_flat_top sample_config
   \<and> map_option fst (detect_flat_top sample_config flat_top_stale_series [] [] [] ())
       = Some 12.5
   \<and> map_option (\<lambda>r. snd r ''pattern_stale'')
         (detect_flat_top sample_config flat_top_stale_series [] [] [] ())
       = Some (Some (VBool True))
   \<and> map_option (\<lambda>r. snd r ''pattern_broken'')
         (detect_flat_top sample_config flat_top_stale_series [] [] [] ())
       = Some None"
proof -
  have len: "50 \<le> length flat_top_stale_series"
    by (simp add: flat_top_stale_series_def)
  have sp: "iloc (map Close flat_top_stale_series) (- ft_ascent_start flat_top_stale_series)
              = Some 100"
    by code_simp
  have gain: "\<not> qlt (ft_initial_gain flat_top_stale_series 100) (min_initial_gain sample_config)"
    by code_simp
  have pull: "\<not> qlt (ft_pullback flat_top_stale_series) (min_pullback sample_config)"
    by code_simp
  have old: "ft_days_old sample_config flat_top_stale_series = Some 11"
    by code_simp
  have lim: "11 > age_limit_flat_top sample_config"
    by (simp add: sample_config_def)
  have cp: "iloc (map Close flat_top_stale_series) (- 1) = Some 100"
    by code_simp
  have low: "(100::real) < ft_descent_low flat_top_stale_series * 0.95"
    by code_simp
  have acc: "fst (ft_structure sample_config flat_top_stale_series
                    (ft_ascent_score flat_top_stale_series 100)) = 25"
    by code_simp
  from flat_top_stale_before_break [OF len sp gain pull old lim, of "[]" "[]" "[]" "()"]
  show ?thesis
    using len cp low old lim acc by (simp add: Let_def)
qed

text \<open>Claim C6. For a series of at least 50 bars whose initial gain passes the configured
  minimum and whose pullback is below the configured minimum pullback,
  \<^verbatim>\<open>detect_flat_top\<close> returns confidence 25 and a fact map whose only key is
  \<^verbatim>\<open>initial_ascension\<close>.\<close>

theorem flat_top_shallow_pullback:
  assumes "50 \<le> length data"
    and "iloc (map Close data) (- ft_ascent_start data) = Some start_price"
    and "\<not> qlt (ft_initial_gain data start_price) (min_initial_gain cfg)"
    and "qlt (ft_pullback data) (min_pullback cfg)"
  shows "detect_flat_top cfg data macd_line signal_line histogram market_context
           = Some (25, [''initial_ascension'' \<mapsto> VPct (ft_initial_gain data start_price)])
         \<and> dom [''initial_ascension'' \<mapsto> VPct (ft_initial_gain data start_price)]
           = {''initial_ascension''}"
  using assms by (simp add: detect_flat_top_def ft_ascent_score_eq)

text \<open>An ascent from 100 to 120 followed by a pullback of less than one percent.\<close>

theorem flat_top_shallow_pullback_witness:
  "50 \<le> length flat_top_shallow_series
   \<and> \<not> qlt (ft_initial_gain flat_top_shallow_series 100) (min_initial_gain sample_config)
   \<and> qlt (ft_pullback flat_top_shallow_series) (min_pullback sample_config)
   \<and> detect_flat_top sample_config flat_top_shallow_series [] [] [] ()
       = Some (25, [''initial_ascension'' \<mapsto> VPct (ft_initial_gain flat_top_shallow_series 100)])"
proof -
  have len: "50 \<le> length flat_top_shallow_series"
    by (simp add: flat_top_shallow_series_def)
  have sp: "iloc (map Close flat_top_shallow_series) (- ft_ascent_start flat_top_shallow_series)
              = Some 100"
    by code_simp
  have gain: "\<not> qlt (ft_initial_gain flat_top_shallow_series 100) (min_initial_gain sample_config)"
    by code_simp
  have pull: "qlt (ft_pullback flat_top_shallow_series) (min_pullback sample_config)"
    by code_simp
  from flat_top_shallow_pullback [OF len sp gain pull, of "[]" "[]" "[]" "()"]
  show ?thesis
    using len gain pull by simp
qed

section \<open>Bull Flag: the invalidation checks\<close>

text \<open>A current close below the flagpole start price always ends in a hard reject. The
  test against the flag low comes first in the source, so it decides the reason when
  both hold.\<close>

lemma bull_flag_broken:
  assumes "30 \<le> length data"
    and "iloc (map Close data) (- bf_flagpole_start data) = Some start_price"
    and "iloc (map Close data) (- 1) = Some current_price"
    and "\<not> qlt (bf_flagpole_gain data start_price) (min_flagpole_gain cfg)"
    and "current_price < start_price"
  shows "detect_bull_flag cfg data ml sl h ctx
           = Some (0, [''pattern_broken'' \<mapsto> VBool True,
                       ''break_reason'' \<mapsto>
                         VStr (if current_price < bf_flag_low data * flag_tolerance cfg
                               then ''Below flag support'' else ''Below flagpole start'')])"
proof -
  from assms(1) obtain fs where fs: "iloc (map Close data) (- 15) = Some fs"
    using iloc_Close [of 15 data] by auto
  from assms fs show ?thesis
    by (simp add: detect_bull_flag_def Let_def)
qed

text \<open>Claim C4, as amended. For a series of at least 30 bars whose flagpole gain passes
  the configured minimum and whose current close is strictly below the flagpole start
  price, \<^verbatim>\<open>detect_bull_flag\<close> returns confidence 0 and the fact map
  \<^verbatim>\<open>{pattern_broken, break_reason}\<close>, discarding the partial score. The reason is
  "Below flagpole start", unless the close is also below the flag low times the
  tolerance: then the earlier check returns, with the reason "Below flag support".\<close>

theorem bull_flag_below_start_rejected:
  assumes "30 \<le> length data"
    and "iloc (map Close data) (- bf_flagpole_start data) = Some start_price"
    and "iloc (map Close data) (- 1) = Some current_price"
    and "\<not> qlt (bf_flagpole_gain data start_price) (min_flagpole_gain cfg)"
    and "current_price < start_price"
  shows "detect_bull_flag cfg data macd_line signal_line histogram market_context
           = Some (0, [''pattern_broken'' \<mapsto> VBool True,
                       ''break_reason'' \<mapsto>
                         VStr (if current_price < bf_flag_low data * flag_tolerance cfg
                               then ''Below flag support'' else ''Below flagpole start'')])"
  by (rule bull_flag_broken [OF assms])

text \<open>A flag that closes at 95, below the flagpole start of 100 and above the flag low
  of 94 times 0.95.\<close>

theorem bull_flag_below_start_rejected_witness:
  "30 \<le> length bull_flag_below_start_series
   \<and> iloc (map Close bull_flag_below_start_series)
         (- bf_flagpole_start bull_flag_below_start_series) = Some 100
   \<and> iloc (map Close bull_flag_below_start_series) (- 1) = Some 95
   \<and> \<not> qlt (bf_flagpole_gain bull_flag_below_start_series 100) (min_flagpole_gain sample_config)
   \<and> \<not> (95::real) < bf_flag_low bull_flag_below_start_series * flag_tolerance sample_config
   \<and> detect_bull_flag sample_config bull_flag_below_start_series [] [] [] ()
       = Some (0, [''pattern_broken'' \<mapsto> VBool True,
                   ''break_reason'' \<mapsto> VStr ''Below flagpole start''])"
proof -
  have len: "30 \<le> length bull_flag_below_start_series"
    by (simp add: bull_flag_below_start_series_def)
  have sp: "iloc (map Close bull_flag_below_start_series)
              (- bf_flagpole_start bull_flag_below_start_series) = Some 100"
    by code_simp
  have cp: "iloc (map Close bull_flag_below_start_series) (- 1) = Some 95"
    by code_simp
  have gain: "\<not> qlt (bf_flagpole_gain bull_flag_below_start_series 100)
                   (min_flagpole_gain sample_config)"
    by code_simp
  have sup: "\<not> (95::real) < bf_flag_low bull_flag_below_start_series * flag_tolerance sample_config"
    by code_simp
  have below: "(95::real) < 100" by simp
  from bull_flag_below_start_rejected [OF len sp cp gain below, of "[]" "[]" "[]" "()"]
  show ?thesis
    using len sp cp gain sup by simp
qed

text \<open>Claim C4 as stated fails where it says "including when the current price is
  simultaneously below the flag low times the tolerance": on such a series (at least 30
  bars, flagpole gain of 20 percent, close of 90 below the start price of 100 and below
  104 times 0.95) the reason returned is "Below flag support".\<close>

theorem bull_flag_support_checked_first:
  "30 \<le> length bull_flag_bad_tick_series
   \<and> iloc (map Close bull_flag_bad_tick_series)
         (- bf_flagpole_start bull_flag_bad_tick_series) = Some 100
   \<and> iloc (map Close bull_flag_bad_tick_series) (- 1) = Some 90
   \<and> \<not> qlt (bf_flagpole_gain bull_flag_bad_tick_series 100) (min_flagpole_gain sample_config)
   \<and> (90::real) < 100
   \<and> (90::real) < bf_flag_low bull_flag_bad_tick_series * flag_tolerance sample_config
   \<and> detect_bull_flag sample_config bull_flag_bad_tick_series [] [] [] ()
       = Some (0, [''pattern_broken'' \<mapsto> VBool True,
                   ''break_reason'' \<mapsto> VStr ''Below flag support''])
   \<and> VStr ''Below flag support'' \<noteq> VStr ''Below flagpole start''"
proof -
  have len: "30 \<le> length bull_flag_bad_tick_series"
    by (simp add: bull_flag_bad_tick_series_def)
  have sp: "iloc (map Close bull_flag_bad_tick_series)
              (- bf_flagpole_start bull_flag_bad_tick_series) = Some 100"
    by code_simp
  have cp: "iloc (map Close bull_flag_bad_tick_series) (- 1) = Some 90"
    by code_simp
  have gain: "\<not> qlt (bf_flagpole_gain bull_flag_bad_tick_series 100)
                   (min_flagpole_gain sample_config)"
    by code_simp
  have sup: "(90::real) < bf_flag_low bull_flag_bad_tick_series * flag_tolerance sample_config"
    by code_simp
  have below: "(90::real) < 100" by simp
  from bull_flag_broken [OF len sp cp gain below, of "[]" "[]" "[]" "()"]
  show ?thesis
    using len sp cp gain sup by simp
qed

section \<open>Cup Handle: handle window and early exit\<close>

lemma cup_handle_days_bounds:
  "30 \<le> length data \<Longrightarrow> 9 \<le> cup_handle_days data \<and> cup_handle_days data \<le> 30"
  by (simp add: cup_handle_days_def cup_max_lookback_def)

lemma length_handle_data:
  assumes "30 \<le> length data"
  shows "int (length (handle_data data)) = cup_handle_days data"
proof -
  from cup_handle_days_bounds [OF assms]
  have "0 < cup_handle_days data" "nat (cup_handle_days data) \<le> length data"
    using assms by linarith+
  then show ?thesis
    by (simp add: handle_data_def tail_def)
qed

lemma cup_handle_analysis_capped:
  "snd (cup_handle_analysis cfg data cr s) ''confidence_capped'' = snd s ''confidence_capped''"
  by (simp add: cup_handle_analysis_def snd_award_other snd_scale_other Let_def)

lemma cup_handle_analysis_forming:
  "0 < cup_handle_days data \<Longrightarrow>
     snd (cup_handle_analysis cfg data cr s) ''forming_handle'' = snd s ''forming_handle''"
  by (simp add: cup_handle_analysis_def snd_award_other snd_scale_other Let_def)

lemma cup_position_other:
  assumes "k = ''confidence_capped'' \<or> k = ''forming_handle''"
  shows "snd (cup_position data cp bl s) k = snd s k"
  using assms
  by (elim disjE) (simp_all add: cup_position_def snd_award_other snd_scale_other Let_def)

lemma cup_handle_running_lacks:
  assumes "cup_handle_running cfg data ml sl = Some (Running s vi)"
  shows "snd s ''confidence_capped'' = None \<and> snd s ''forming_handle'' = None"
proof -
  have kv: "''confidence_capped'' \<notin> volume_fact_keys" "''forming_handle'' \<notin> volume_fact_keys"
    by (simp_all add: volume_fact_keys_def)
  from assms have len: "30 \<le> length data"
    by (auto simp: cup_handle_running_def split: if_splits)
  from cup_handle_days_bounds [OF len] have pos: "0 < cup_handle_days data" by simp
  from assms len show ?thesis
    by (auto simp: cup_handle_running_def Let_def add_volume_other
        cup_position_other cup_handle_analysis_capped cup_handle_analysis_forming [OF pos]
        snd_award_other
        dest: analyze_volume_lacks [OF _ kv(1)] analyze_volume_lacks [OF _ kv(2)]
        split: if_splits Option.bind_splits)
qed

text \<open>Claim C5. When the running confidence of \<^verbatim>\<open>detect_cup_handle\<close>, after the volume
  score is added, is below 35, the detector returns that confidence and fact map as they
  are: the volume confirmation cap is not applied, and \<^verbatim>\<open>confidence_capped\<close> is not in
  the result, whatever the volume flags are.\<close>

theorem cup_handle_early_exit_skips_cap:
  assumes "cup_handle_running cfg data macd_line signal_line = Some (Running s volume_info)"
    and "fst s < 35"
  shows "detect_cup_handle cfg data macd_line signal_line histogram market_context = Some s
         \<and> snd s ''confidence_capped'' = None"
  using assms cup_handle_running_lacks [OF assms(1)]
  by (simp add: detect_cup_handle_def)

text \<open>A cup with a deep handle far from the rim on flat volume: the running confidence
  is 31.5, none of the good, strong and exceptional volume flags is set, and the result
  is not capped.\<close>

theorem cup_handle_early_exit_skips_cap_witness:
  "\<exists>s volume_info.
      cup_handle_running sample_config cup_deep_handle_series [0] [0] = Some (Running s volume_info)
      \<and> fst s = 31.5
      \<and> \<not> flag_set volume_info ''good_volume'' \<and> \<not> flag_set volume_info ''strong_volume''
      \<and> \<not> flag_set volume_info ''exceptional_volume''
      \<and> detect_cup_handle sample_config cup_deep_handle_series [0] [0] [] () = Some s
      \<and> snd s ''confidence_capped'' = None"
proof -
  have "case cup_handle_running sample_config cup_deep_handle_series [0] [0] of
          Some (Running s volume_info) \<Rightarrow>
            fst s = 31.5 \<and> \<not> flag_set volume_info ''good_volume''
            \<and> \<not> flag_set volume_info ''strong_volume''
            \<and> \<not> flag_set volume_info ''exceptional_volume''
        | _ \<Rightarrow> False"
    by code_simp
  then obtain s volume_info where
    r: "cup_handle_running sample_config cup_deep_handle_series [0] [0] = Some (Running s volume_info)"
    and f: "fst s = 31.5"
    and v: "\<not> flag_set volume_info ''good_volume''" "\<not> flag_set volume_info ''strong_volume''"
      "\<not> flag_set volume_info ''exceptional_volume''"
    by (auto split: option.splits cup_stage.splits)
  from f have low: "fst s < 35" by simp
  from cup_handle_early_exit_skips_cap [OF r low, of "[]" "()"] r f v
  show ?thesis by (intro exI [of _ s] exI [of _ volume_info]) simp
qed

lemma detect_cup_handle_no_forming:
  assumes "detect_cup_handle cfg data ml sl h ctx = Some r"
  shows "snd r ''forming_handle'' = None"
proof -
  from assms obtain stage where st: "cup_handle_running cfg data ml sl = Some stage"
    by (auto simp: detect_cup_handle_def split: Option.bind_splits)
  show ?thesis
  proof (cases stage)
    case Rejected
    with assms st show ?thesis by (auto simp: detect_cup_handle_def)
  next
    case (Running s vi)
    from cup_handle_running_lacks [OF st [unfolded Running]]
    have "snd s ''forming_handle'' = None" by simp
    with assms st Running show ?thesis
      by (auto simp: detect_cup_handle_def volume_cap_other split: if_splits)
  qed
qed

text \<open>Claim C10. For a series of at least 30 bars, \<^verbatim>\<open>handle_days\<close> is
  \<open>min 30 (min 100 (len - 3) div 3)\<close>, between 9 and 30, and the handle window has
  that many bars. The branch for \<^verbatim>\<open>handle_days == 0\<close> is therefore never taken: no
  result of \<^verbatim>\<open>detect_cup_handle\<close> carries \<^verbatim>\<open>forming_handle\<close>.\<close>

theorem cup_handle_window_never_empty:
  "(30 \<le> length data \<longrightarrow>
      cup_handle_days data = min 30 (min 100 (int (length data) - 3) div 3)
      \<and> 9 \<le> cup_handle_days data \<and> cup_handle_days data \<le> 30
      \<and> int (length (handle_data data)) = cup_handle_days data)
   \<and> (\<forall>r. detect_cup_handle cfg data macd_line signal_line histogram market_context = Some r
            \<longrightarrow> snd r ''forming_handle'' = None)"
proof (intro conjI impI allI)
  show "cup_handle_days data = min 30 (min 100 (int (length data) - 3) div 3)"
    by (simp add: cup_handle_days_def cup_max_lookback_def)
next
  assume "30 \<le> length data"
  then show "9 \<le> cup_handle_days data" "cup_handle_days data \<le> 30"
    using cup_handle_days_bounds by simp_all
next
  assume "30 \<le> length data"
  then show "int (length (handle_data data)) = cup_handle_days data"
    by (rule length_handle_data)
next
  fix r
  assume "detect_cup_handle cfg data macd_line signal_line histogram market_context = Some r"
  then show "snd r ''forming_handle'' = None"
    by (rule detect_cup_handle_no_forming)
qed

text \<open>Thirty bars give a handle window of nine bars.\<close>

theorem cup_handle_window_never_empty_witness:
  "30 \<le> length cup_deep_handle_series
   \<and> cup_handle_days cup_deep_handle_series = 9
   \<and> length (handle_data cup_deep_handle_series) = 9
   \<and> (\<exists>info. detect_cup_handle sample_config cup_deep_handle_series [0] [0] [] ()
                = Some (31.5, info)
              \<and> info ''forming_handle'' = None)"
proof -
  have len: "30 \<le> length cup_deep_handle_series"
    by (simp add: cup_deep_handle_series_def)
  have "map_option fst (detect_cup_handle sample_config cup_deep_handle_series [0] [0] [] ())
          = Some 31.5"
    by code_simp
  then obtain info where
    d: "detect_cup_handle sample_config cup_deep_handle_series [0] [0] [] () = Some (31.5, info)"
    by auto
  have days: "min 30 (min 100 (int (length cup_deep_handle_series) - 3) div 3) = 9"
    by (simp add: cup_deep_handle_series_def)
  from cup_handle_window_never_empty
    [of cup_deep_handle_series sample_config "[0]" "[0]" "[]" "()"] len d days
  have "cup_handle_days cup_deep_handle_series = 9
        \<and> int (length (handle_data cup_deep_handle_series)) = 9
        \<and> info ''forming_handle'' = None"
    by simp
  with len d show ?thesis by (intro conjI exI [of _ info]) simp_all
qed

end
